theory Spec2Isabelle
  imports Main
begin

section \<open>Python values used by the dataset services\<close>

text \<open>
  The embedding follows \<^verbatim>\<open>app/modules/dataset/services.py\<close>. Python strings and
  byte strings are \<open>string\<close>, Python integers are \<open>int\<close> (row identifiers, which
  the database hands out, are \<open>nat\<close>), an exception is a value of \<open>error\<close> and a
  function that can raise returns \<open>error + 'a\<close> with \<open>Inl\<close> for the exception.
\<close>

type_synonym bytes = string

datatype error =
    AttributeError string
  | FileNotFoundError string
  | IsADirectoryError string
  | NotADirectoryError string
  | FileExistsError string

subsection \<open>Formatting integers: \<^verbatim>\<open>str(int)\<close> as used by f-strings\<close>

definition digit_char :: "nat \<Rightarrow> char" where
  "digit_char d = ''0123456789'' ! d"

function str_nat :: "nat \<Rightarrow> string" where
  "str_nat n = (if n < 10 then [digit_char n] else str_nat (n div 10) @ [digit_char (n mod 10)])"
  by pat_completeness auto
termination
  by (relation "measure id") auto

declare str_nat.simps [simp del]


subsection \<open>\<^verbatim>\<open>os.getenv\<close> and \<^verbatim>\<open>os.path.join\<close>\<close>

type_synonym environ = "string \<rightharpoonup> string"

definition os_getenv :: "environ \<Rightarrow> string \<Rightarrow> string \<Rightarrow> string" where
  "os_getenv env key dflt = (case env key of None \<Rightarrow> dflt | Some v \<Rightarrow> v)"

text \<open>
  \<^verbatim>\<open>posixpath.join(a, b)\<close>: an absolute \<open>b\<close> replaces \<open>a\<close>; otherwise \<open>b\<close> is
  appended, with a separator unless \<open>a\<close> is empty or already ends in one.
\<close>

definition os_path_join :: "string \<Rightarrow> string \<Rightarrow> string" where
  "os_path_join a b =
     (if b \<noteq> [] \<and> hd b = CHR ''/'' then b
      else if a = [] \<or> last a = CHR ''/'' then a @ b
      else a @ ''/'' @ b)"

section \<open>Human-readable sizes\<close>




section \<open>The data model\<close>

subsection \<open>Forms and users\<close>

text \<open>
  The dictionary an \<^verbatim>\<open>AuthorForm\<close> yields (\<^verbatim>\<open>get_author\<close>) and that is passed as
  \<^verbatim>\<open>**author_data\<close> to the author repository.
\<close>

record author_data =
  ad_name :: string
  ad_affiliation :: string
  ad_orcid :: string

record FeatureModelForm =
  fmf_uvl_filename :: string
  fmf_title :: string
  fmf_desc :: string
  fmf_publication_type :: string
  fmf_publication_doi :: string
  fmf_tags :: string
  fmf_version :: string
  fmf_authors :: "author_data list"

record DataSetForm =
  f_title :: string
  f_desc :: string
  f_publication_type :: string
  f_publication_doi :: string
  f_dataset_doi :: string
  f_tags :: string
  f_dataset_anonymous :: bool
  f_authors :: "author_data list"
  f_anonymous_authors :: "author_data list"
  f_feature_models :: "FeatureModelForm list"

record UserProfile =
  p_surname :: string
  p_name :: string
  p_affiliation :: string
  p_orcid :: string

record User =
  u_id :: nat
  u_profile :: UserProfile
  u_temp_folder :: string

subsection \<open>Rows\<close>

record DSMetaData =
  dsmd_id :: nat
  dsmd_title :: string
  dsmd_description :: string
  dsmd_publication_type :: string
  dsmd_publication_doi :: string
  dsmd_dataset_doi :: string
  dsmd_tags :: string
  dsmd_dataset_anonymous :: bool

record Author =
  au_id :: nat
  au_name :: string
  au_affiliation :: string
  au_orcid :: string
  au_ds_meta_data_id :: "nat option"
  au_fm_meta_data_id :: "nat option"

record DataSet =
  ds_id :: nat
  ds_user_id :: nat
  ds_ds_meta_data_id :: nat

record FMMetaData =
  fmmd_id :: nat
  fmmd_uvl_filename :: string
  fmmd_title :: string
  fmmd_description :: string
  fmmd_publication_type :: string
  fmmd_publication_doi :: string
  fmmd_tags :: string
  fmmd_uvl_version :: string

record FeatureModel =
  fm_id :: nat
  fm_data_set_id :: nat
  fm_fm_meta_data_id :: nat

record Hubfile =
  hf_id :: nat
  hf_name :: string
  hf_checksum :: string
  hf_size :: int
  hf_feature_model_id :: nat

record DSDownloadRecord =
  dr_dataset_id :: nat
  dr_download_cookie :: string

record DSViewRecord =
  vr_dataset_id :: nat
  vr_view_cookie :: string

subsection \<open>The persistence layer\<close>

text \<open>
  The tables, in insertion order. \<open>committed\<close> is what every later request sees,
  \<open>session\<close> is the view of the running transaction (committed rows plus flushed,
  uncommitted writes). Identifiers come from per-table sequences, which a rollback
  does not rewind. Log records are kept in \<open>log\<close>.
\<close>

record tables =
  t_ds_meta_data :: "DSMetaData list"
  t_author :: "Author list"
  t_data_set :: "DataSet list"
  t_fm_meta_data :: "FMMetaData list"
  t_feature_model :: "FeatureModel list"
  t_file :: "Hubfile list"
  t_ds_download_record :: "DSDownloadRecord list"
  t_ds_view_record :: "DSViewRecord list"

text \<open>The keyword dictionaries of \<^verbatim>\<open>get_dsmetadata\<close> and \<^verbatim>\<open>get_fmmetadata\<close>.\<close>

record dsmetadata_kwargs =
  kw_title :: string
  kw_description :: string
  kw_publication_type :: string
  kw_publication_doi :: string
  kw_dataset_doi :: string
  kw_tags :: string
  kw_dataset_anonymous :: bool

record fmmetadata_kwargs =
  fkw_uvl_filename :: string
  fkw_title :: string
  fkw_description :: string
  fkw_publication_type :: string
  fkw_publication_doi :: string
  fkw_tags :: string
  fkw_uvl_version :: string

datatype log_record =
    Creating_dsmetadata dsmetadata_kwargs
  | Exception_creating error
  | Updating_dsmetadata dsmetadata_kwargs
  | Exception_updating error

record store =
  committed :: tables
  session :: tables
  seq_ds_meta_data :: nat
  seq_author :: nat
  seq_data_set :: nat
  seq_fm_meta_data :: nat
  seq_feature_model :: nat
  seq_file :: nat
  log :: "log_record list"

definition logger_info :: "log_record \<Rightarrow> store \<Rightarrow> store" where
  "logger_info r st = st\<lparr>log := log st @ [r]\<rparr>"

definition session_commit :: "store \<Rightarrow> store" where
  "session_commit st = st\<lparr>committed := session st\<rparr>"

definition session_rollback :: "store \<Rightarrow> store" where
  "session_rollback st = st\<lparr>session := committed st\<rparr>"

text \<open>
  Modelled from the spec: the repositories (\<^verbatim>\<open>core/repositories\<close>,
  \<^verbatim>\<open>app/modules/*/repositories.py\<close>) are not among the sources. Section 6 of the
  specification gives their contract: \<^verbatim>\<open>create\<close>, \<^verbatim>\<open>update\<close>, \<^verbatim>\<open>delete_by_column\<close>
  and \<^verbatim>\<open>count\<close> are each a single-row write ``with optional deferred-commit flag'' or a
  read, and the caller controls the transaction with commit and rollback on the session.
  A write whose caller defers the commit (\<^verbatim>\<open>commit=False\<close>) is flushed into the session
  only; a write whose caller passes no flag is not deferred and commits the session.
\<close>

definition repository_commit_default :: bool where
  "repository_commit_default = True"

definition finish_write :: "bool \<Rightarrow> store \<Rightarrow> store" where
  "finish_write commit st = (if commit then session_commit st else st)"

definition dsmetadata_repository_create ::
  "bool \<Rightarrow> dsmetadata_kwargs \<Rightarrow> store \<Rightarrow> DSMetaData \<times> store" where
  "dsmetadata_repository_create commit kw st =
     (let row = \<lparr>dsmd_id = seq_ds_meta_data st,
                 dsmd_title = kw_title kw,
                 dsmd_description = kw_description kw,
                 dsmd_publication_type = kw_publication_type kw,
                 dsmd_publication_doi = kw_publication_doi kw,
                 dsmd_dataset_doi = kw_dataset_doi kw,
                 dsmd_tags = kw_tags kw,
                 dsmd_dataset_anonymous = kw_dataset_anonymous kw\<rparr>;
          st1 = st\<lparr>session := (session st)\<lparr>t_ds_meta_data := t_ds_meta_data (session st) @ [row]\<rparr>,
                   seq_ds_meta_data := Suc (seq_ds_meta_data st)\<rparr>
      in (row, finish_write commit st1))"

definition author_repository_create ::
  "bool \<Rightarrow> nat option \<Rightarrow> nat option \<Rightarrow> author_data \<Rightarrow> store \<Rightarrow> Author \<times> store" where
  "author_repository_create commit ds_meta_data_id fm_meta_data_id a st =
     (let row = \<lparr>au_id = seq_author st,
                 au_name = ad_name a,
                 au_affiliation = ad_affiliation a,
                 au_orcid = ad_orcid a,
                 au_ds_meta_data_id = ds_meta_data_id,
                 au_fm_meta_data_id = fm_meta_data_id\<rparr>;
          st1 = st\<lparr>session := (session st)\<lparr>t_author := t_author (session st) @ [row]\<rparr>,
                   seq_author := Suc (seq_author st)\<rparr>
      in (row, finish_write commit st1))"

definition dataset_repository_create :: "bool \<Rightarrow> nat \<Rightarrow> nat \<Rightarrow> store \<Rightarrow> DataSet \<times> store" where
  "dataset_repository_create commit user_id ds_meta_data_id st =
     (let row = \<lparr>ds_id = seq_data_set st, ds_user_id = user_id,
                 ds_ds_meta_data_id = ds_meta_data_id\<rparr>;
          st1 = st\<lparr>session := (session st)\<lparr>t_data_set := t_data_set (session st) @ [row]\<rparr>,
                   seq_data_set := Suc (seq_data_set st)\<rparr>
      in (row, finish_write commit st1))"

definition fmmetadata_repository_create ::
  "bool \<Rightarrow> fmmetadata_kwargs \<Rightarrow> store \<Rightarrow> FMMetaData \<times> store" where
  "fmmetadata_repository_create commit kw st =
     (let row = \<lparr>fmmd_id = seq_fm_meta_data st,
                 fmmd_uvl_filename = fkw_uvl_filename kw,
                 fmmd_title = fkw_title kw,
                 fmmd_description = fkw_description kw,
                 fmmd_publication_type = fkw_publication_type kw,
                 fmmd_publication_doi = fkw_publication_doi kw,
                 fmmd_tags = fkw_tags kw,
                 fmmd_uvl_version = fkw_uvl_version kw\<rparr>;
          st1 = st\<lparr>session := (session st)\<lparr>t_fm_meta_data := t_fm_meta_data (session st) @ [row]\<rparr>,
                   seq_fm_meta_data := Suc (seq_fm_meta_data st)\<rparr>
      in (row, finish_write commit st1))"

definition feature_model_repository_create ::
  "bool \<Rightarrow> nat \<Rightarrow> nat \<Rightarrow> store \<Rightarrow> FeatureModel \<times> store" where
  "feature_model_repository_create commit data_set_id fm_meta_data_id st =
     (let row = \<lparr>fm_id = seq_feature_model st, fm_data_set_id = data_set_id,
                 fm_fm_meta_data_id = fm_meta_data_id\<rparr>;
          st1 = st\<lparr>session := (session st)\<lparr>t_feature_model := t_feature_model (session st) @ [row]\<rparr>,
                   seq_feature_model := Suc (seq_feature_model st)\<rparr>
      in (row, finish_write commit st1))"

definition hubfilerepository_create ::
  "bool \<Rightarrow> string \<Rightarrow> string \<Rightarrow> int \<Rightarrow> nat \<Rightarrow> store \<Rightarrow> Hubfile \<times> store" where
  "hubfilerepository_create commit name checksum sz feature_model_id st =
     (let row = \<lparr>hf_id = seq_file st, hf_name = name, hf_checksum = checksum,
                 hf_size = sz, hf_feature_model_id = feature_model_id\<rparr>;
          st1 = st\<lparr>session := (session st)\<lparr>t_file := t_file (session st) @ [row]\<rparr>,
                   seq_file := Suc (seq_file st)\<rparr>
      in (row, finish_write commit st1))"

text \<open>
  Modelled from the spec: \<^verbatim>\<open>update(id, **kwargs)\<close> overwrites the fields of the row
  with that identifier in place and returns it, or returns \<^verbatim>\<open>None\<close> when there is no
  such row; \<^verbatim>\<open>delete_by_column\<close> removes every row whose column has the value. Neither
  call site passes a deferred-commit flag.
\<close>

definition set_dsmetadata :: "dsmetadata_kwargs \<Rightarrow> DSMetaData \<Rightarrow> DSMetaData" where
  "set_dsmetadata kw row =
     row\<lparr>dsmd_title := kw_title kw,
         dsmd_description := kw_description kw,
         dsmd_publication_type := kw_publication_type kw,
         dsmd_publication_doi := kw_publication_doi kw,
         dsmd_dataset_doi := kw_dataset_doi kw,
         dsmd_tags := kw_tags kw,
         dsmd_dataset_anonymous := kw_dataset_anonymous kw\<rparr>"

definition dsmetadata_repository_update ::
  "nat \<Rightarrow> dsmetadata_kwargs \<Rightarrow> store \<Rightarrow> DSMetaData option \<times> store" where
  "dsmetadata_repository_update i kw st =
     (case find (\<lambda>m. dsmd_id m = i) (t_ds_meta_data (session st)) of
        None \<Rightarrow> (None, st)
      | Some row \<Rightarrow>
          (Some (set_dsmetadata kw row),
           finish_write repository_commit_default
             (st\<lparr>session := (session st)\<lparr>t_ds_meta_data :=
                    map (\<lambda>m. if dsmd_id m = i then set_dsmetadata kw m else m)
                        (t_ds_meta_data (session st))\<rparr>\<rparr>)))"

definition author_repository_delete_by_ds_meta_data_id :: "nat \<Rightarrow> store \<Rightarrow> store" where
  "author_repository_delete_by_ds_meta_data_id v st =
     finish_write repository_commit_default
       (st\<lparr>session := (session st)\<lparr>t_author :=
              filter (\<lambda>a. au_ds_meta_data_id a \<noteq> Some v) (t_author (session st))\<rparr>\<rparr>)"

text \<open>
  Relationships of the object-relational mapping, read through the foreign keys:
  \<^verbatim>\<open>dataset.ds_meta_data\<close>, \<^verbatim>\<open>ds_meta_data.authors\<close>, \<^verbatim>\<open>dataset.feature_models\<close>,
  \<^verbatim>\<open>fm.fm_meta_data\<close>, \<^verbatim>\<open>fm_meta_data.authors\<close>, \<^verbatim>\<open>fm.files\<close>, and
  \<^verbatim>\<open>get_by_id\<close> of the dataset service.
\<close>

definition ds_meta_data_of :: "tables \<Rightarrow> DataSet \<Rightarrow> DSMetaData option" where
  "ds_meta_data_of t d = find (\<lambda>m. dsmd_id m = ds_ds_meta_data_id d) (t_ds_meta_data t)"

definition ds_authors :: "tables \<Rightarrow> nat \<Rightarrow> Author list" where
  "ds_authors t i = filter (\<lambda>a. au_ds_meta_data_id a = Some i) (t_author t)"

definition feature_models_of :: "tables \<Rightarrow> nat \<Rightarrow> FeatureModel list" where
  "feature_models_of t i = filter (\<lambda>fm. fm_data_set_id fm = i) (t_feature_model t)"

definition fm_meta_data_of :: "tables \<Rightarrow> FeatureModel \<Rightarrow> FMMetaData option" where
  "fm_meta_data_of t fm = find (\<lambda>m. fmmd_id m = fm_fm_meta_data_id fm) (t_fm_meta_data t)"

definition fm_authors :: "tables \<Rightarrow> nat \<Rightarrow> Author list" where
  "fm_authors t i = filter (\<lambda>a. au_fm_meta_data_id a = Some i) (t_author t)"

definition fm_files :: "tables \<Rightarrow> nat \<Rightarrow> Hubfile list" where
  "fm_files t i = filter (\<lambda>f. hf_feature_model_id f = i) (t_file t)"

definition get_by_id :: "tables \<Rightarrow> nat \<Rightarrow> DataSet option" where
  "get_by_id t i = find (\<lambda>d. ds_id d = i) (t_data_set t)"


section \<open>The file system\<close>

text \<open>
  A directory tree without symbolic links. A directory lists its entries in the order
  the operating system reports them. Relative paths are resolved against the working
  directory \<open>fs_cwd\<close>, given by its components.
\<close>

datatype fsnode = File bytes | Dir "(string \<times> fsnode) list"

record filesystem =
  fs_root :: fsnode
  fs_cwd :: "string list"

datatype stat = ENOENT | ENOTDIR | Node fsnode

fun lookup_node :: "fsnode \<Rightarrow> string list \<Rightarrow> stat"
  and lookup_entries :: "(string \<times> fsnode) list \<Rightarrow> string \<Rightarrow> string list \<Rightarrow> stat" where
  "lookup_node n [] = Node n"
| "lookup_node (File _) (c # cs) = ENOTDIR"
| "lookup_node (Dir es) (c # cs) = lookup_entries es c cs"
| "lookup_entries [] c cs = ENOENT"
| "lookup_entries ((k, n) # es) c cs =
     (if k = c then lookup_node n cs else lookup_entries es c cs)"

text \<open>\<^verbatim>\<open>str.split('/')\<close>.\<close>

fun split_sep :: "string \<Rightarrow> string list" where
  "split_sep [] = [[]]"
| "split_sep (c # cs) =
     (if c = CHR ''/'' then [] # split_sep cs
      else (case split_sep cs of [] \<Rightarrow> [[c]] | p # ps \<Rightarrow> (c # p) # ps))"

definition is_abs :: "string \<Rightarrow> bool" where
  "is_abs p = (p \<noteq> [] \<and> hd p = CHR ''/'')"

definition path_components :: "string \<Rightarrow> string list" where
  "path_components p = filter (\<lambda>c. c \<noteq> [] \<and> c \<noteq> ''.'') (split_sep p)"

text \<open>Resolving \<^verbatim>\<open>..\<close> against the components collected so far (\<^verbatim>\<open>normpath\<close>).\<close>

fun normpath :: "string list \<Rightarrow> string list \<Rightarrow> string list" where
  "normpath acc [] = acc"
| "normpath acc (c # cs) =
     (if c = ''..'' then normpath (butlast acc) cs else normpath (acc @ [c]) cs)"

definition abs_components :: "filesystem \<Rightarrow> string \<Rightarrow> string list" where
  "abs_components fs p = normpath (if is_abs p then [] else fs_cwd fs) (path_components p)"

definition fs_stat :: "filesystem \<Rightarrow> string \<Rightarrow> stat" where
  "fs_stat fs p = lookup_node (fs_root fs) (abs_components fs p)"

text \<open>
  \<^verbatim>\<open>calculate_checksum_and_size\<close>: \<^verbatim>\<open>os.path.getsize\<close> raises when the path does not
  resolve, \<^verbatim>\<open>open\<close> raises on a directory. The digest \<^verbatim>\<open>hashlib.md5(...).hexdigest()\<close>
  is the parameter \<open>md5\<close>.
\<close>

definition calculate_checksum_and_size ::
  "(bytes \<Rightarrow> string) \<Rightarrow> filesystem \<Rightarrow> string \<Rightarrow> error + (string \<times> int)" where
  "calculate_checksum_and_size md5 fs file_path =
     (case fs_stat fs file_path of
        ENOENT \<Rightarrow> Inl (FileNotFoundError file_path)
      | ENOTDIR \<Rightarrow> Inl (NotADirectoryError file_path)
      | Node (Dir _) \<Rightarrow> Inl (IsADirectoryError file_path)
      | Node (File content) \<Rightarrow> Inr (md5 content, int (length content)))"

subsection \<open>Paths relative to a directory\<close>

text \<open>
  \<^verbatim>\<open>os.path.basename\<close> is the part after the last separator. \<^verbatim>\<open>os.path.relpath(path, start)\<close>
  makes both paths absolute, drops their common prefix, and climbs with \<^verbatim>\<open>..\<close> out of
  what is left of \<open>start\<close>.
\<close>

definition os_path_basename :: "string \<Rightarrow> string" where
  "os_path_basename p = last (split_sep p)"

fun common_prefix :: "'a list \<Rightarrow> 'a list \<Rightarrow> 'a list" where
  "common_prefix (x # xs) (y # ys) = (if x = y then x # common_prefix xs ys else [])"
| "common_prefix xs ys = []"

definition os_path_relpath :: "filesystem \<Rightarrow> string \<Rightarrow> string \<Rightarrow> string" where
  "os_path_relpath fs path start =
     (let start_list = abs_components fs start;
          path_list = abs_components fs path;
          i = length (common_prefix start_list path_list);
          rel_list = replicate (length start_list - i) ''..'' @ drop i path_list
      in if rel_list = [] then ''.'' else foldl os_path_join (hd rel_list) (tl rel_list))"

subsection \<open>Creating directories and writing files\<close>

text \<open>
  \<open>update_node\<close> rewrites the node found at a path and leaves the tree alone when the path
  does not resolve; \<open>set_entry\<close> replaces the entry of a directory with the given name, or
  appends it.
\<close>

fun update_node :: "string list \<Rightarrow> (fsnode \<Rightarrow> fsnode) \<Rightarrow> fsnode \<Rightarrow> fsnode"
  and update_entries :: "string \<Rightarrow> string list \<Rightarrow> (fsnode \<Rightarrow> fsnode) \<Rightarrow> (string \<times> fsnode) list
      \<Rightarrow> (string \<times> fsnode) list" where
  "update_node [] f n = f n"
| "update_node (c # cs) f (File b) = File b"
| "update_node (c # cs) f (Dir es) = Dir (update_entries c cs f es)"
| "update_entries c cs f [] = []"
| "update_entries c cs f ((k, n) # es) =
     (if k = c then (k, update_node cs f n) # es else (k, n) # update_entries c cs f es)"

fun set_entry :: "string \<Rightarrow> fsnode \<Rightarrow> fsnode \<Rightarrow> fsnode" where
  "set_entry k v (File b) = File b"
| "set_entry k v (Dir es) =
     Dir (if k \<in> set (map fst es) then map (\<lambda>e. if fst e = k then (k, v) else e) es
          else es @ [(k, v)])"

text \<open>
  \<^verbatim>\<open>os.mkdir\<close> raises when the path exists or when its parent is not a directory.
\<close>

definition os_mkdir :: "string \<Rightarrow> filesystem \<Rightarrow> (error + unit) \<times> filesystem" where
  "os_mkdir p fs =
     (let cs = abs_components fs p
      in if cs = [] then (Inl (FileExistsError p), fs)
         else (case lookup_node (fs_root fs) (butlast cs) of
                 ENOENT \<Rightarrow> (Inl (FileNotFoundError p), fs)
               | ENOTDIR \<Rightarrow> (Inl (NotADirectoryError p), fs)
               | Node (File _) \<Rightarrow> (Inl (NotADirectoryError p), fs)
               | Node (Dir es) \<Rightarrow>
                   if last cs \<in> set (map fst es) then (Inl (FileExistsError p), fs)
                   else (Inr (), fs\<lparr>fs_root :=
                           update_node (butlast cs) (set_entry (last cs) (Dir [])) (fs_root fs)\<rparr>)))"

text \<open>
  Opening a path for writing and storing \<open>content\<close> there: the file is created or
  truncated; a directory at the path, or a parent that is not a directory, raises.
\<close>

definition write_file :: "string \<Rightarrow> bytes \<Rightarrow> filesystem \<Rightarrow> (error + unit) \<times> filesystem" where
  "write_file p content fs =
     (let cs = abs_components fs p
      in if cs = [] then (Inl (IsADirectoryError p), fs)
         else (case lookup_node (fs_root fs) cs of
                 ENOTDIR \<Rightarrow> (Inl (NotADirectoryError p), fs)
               | Node (Dir _) \<Rightarrow> (Inl (IsADirectoryError p), fs)
               | _ \<Rightarrow>
                  (case lookup_node (fs_root fs) (butlast cs) of
                     Node (Dir es) \<Rightarrow>
                       (Inr (), fs\<lparr>fs_root :=
                           update_node (butlast cs) (set_entry (last cs) (File content)) (fs_root fs)\<rparr>)
                   | Node (File _) \<Rightarrow> (Inl (NotADirectoryError p), fs)
                   | ENOTDIR \<Rightarrow> (Inl (NotADirectoryError p), fs)
                   | ENOENT \<Rightarrow> (Inl (FileNotFoundError p), fs))))"

text \<open>
  \<^verbatim>\<open>tempfile.mkdtemp()\<close> draws a random name under the temporary directory and creates
  it. The path it draws is the parameter \<open>candidate\<close>; the call returns that path.
\<close>

definition tempfile_mkdtemp :: "string \<Rightarrow> filesystem \<Rightarrow> (error + string) \<times> filesystem" where
  "tempfile_mkdtemp candidate fs =
     (case os_mkdir candidate fs of
        (Inl exc, fs') \<Rightarrow> (Inl exc, fs')
      | (Inr _, fs') \<Rightarrow> (Inr candidate, fs'))"

subsection \<open>Walking a directory tree\<close>

text \<open>
  \<^verbatim>\<open>os.walk(top)\<close>, top-down: one triple \<^verbatim>\<open>(dirpath, dirnames, filenames)\<close> for the
  directory, then the walk of each subdirectory \<^verbatim>\<open>os.path.join(top, dirname)\<close> in
  turn. A \<open>top\<close> that is missing or not a directory yields nothing: the error of
  listing it is ignored.
\<close>

fun walk :: "string \<Rightarrow> fsnode \<Rightarrow> (string \<times> string list \<times> string list) list"
  and walk_subdirs :: "string \<Rightarrow> (string \<times> fsnode) list \<Rightarrow> (string \<times> string list \<times> string list) list" where
  "walk top_dir (File b) = []"
| "walk top_dir (Dir es) =
     (top_dir, map fst (filter (\<lambda>e. case snd e of Dir _ \<Rightarrow> True | File _ \<Rightarrow> False) es),
           map fst (filter (\<lambda>e. case snd e of Dir _ \<Rightarrow> False | File _ \<Rightarrow> True) es))
       # walk_subdirs top_dir es"
| "walk_subdirs top_dir [] = []"
| "walk_subdirs top_dir ((k, n) # es) = walk (os_path_join top_dir k) n @ walk_subdirs top_dir es"

definition os_walk :: "filesystem \<Rightarrow> string \<Rightarrow> (string \<times> string list \<times> string list) list" where
  "os_walk fs top_dir = (case fs_stat fs top_dir of Node n \<Rightarrow> walk top_dir n | _ \<Rightarrow> [])"


section \<open>The dataset service\<close>

subsection \<open>Form accessors\<close>

text \<open>
  Modelled from the spec: the form classes (\<^verbatim>\<open>app/modules/dataset/forms.py\<close>) are not
  among the sources. The form ``supplies validated submitted field values'' and the
  accessors \<^verbatim>\<open>get_dsmetadata\<close>, \<^verbatim>\<open>get_authors\<close> and \<^verbatim>\<open>get_anonymous_authors\<close>; a
  MetaData record is created ``from the form's dataset-level fields'' (title, description,
  publication type and DOI, dataset DOI, tags, anonymity flag), a feature model's from the
  entry's fields. The publication type is kept as the string the form holds.
\<close>

definition get_dsmetadata :: "DataSetForm \<Rightarrow> dsmetadata_kwargs" where
  "get_dsmetadata form =
     \<lparr>kw_title = f_title form,
      kw_description = f_desc form,
      kw_publication_type = f_publication_type form,
      kw_publication_doi = f_publication_doi form,
      kw_dataset_doi = f_dataset_doi form,
      kw_tags = f_tags form,
      kw_dataset_anonymous = f_dataset_anonymous form\<rparr>"

definition get_authors :: "DataSetForm \<Rightarrow> author_data list" where
  "get_authors form = f_authors form"

definition get_anonymous_authors :: "DataSetForm \<Rightarrow> author_data list" where
  "get_anonymous_authors form = f_anonymous_authors form"

definition get_fmmetadata :: "FeatureModelForm \<Rightarrow> fmmetadata_kwargs" where
  "get_fmmetadata fmf =
     \<lparr>fkw_uvl_filename = fmf_uvl_filename fmf,
      fkw_title = fmf_title fmf,
      fkw_description = fmf_desc fmf,
      fkw_publication_type = fmf_publication_type fmf,
      fkw_publication_doi = fmf_publication_doi fmf,
      fkw_tags = fmf_tags fmf,
      fkw_uvl_version = fmf_version fmf\<rparr>"

definition fm_get_authors :: "FeatureModelForm \<Rightarrow> author_data list" where
  "fm_get_authors fmf = fmf_authors fmf"

subsection \<open>\<^verbatim>\<open>create_from_form\<close> and \<^verbatim>\<open>update_from_form\<close>\<close>

text \<open>The dictionary \<^verbatim>\<open>main_author\<close> both methods build before their \<^verbatim>\<open>try\<close>.\<close>

definition main_author :: "User \<Rightarrow> author_data" where
  "main_author current_user =
     \<lparr>ad_name = p_surname (u_profile current_user) @ '', '' @ p_name (u_profile current_user),
      ad_affiliation = p_affiliation (u_profile current_user),
      ad_orcid = p_orcid (u_profile current_user)\<rparr>"

text \<open>
  The loops over \<^verbatim>\<open>author_list\<close>. Appending the new row to the \<^verbatim>\<open>authors\<close>
  relationship sets the foreign key the row was created with, so it adds nothing to
  the tables.
\<close>

fun create_ds_authors :: "nat \<Rightarrow> author_data list \<Rightarrow> store \<Rightarrow> store" where
  "create_ds_authors ds_meta_data_id [] st = st"
| "create_ds_authors ds_meta_data_id (author_data # rest) st =
     create_ds_authors ds_meta_data_id rest
       (snd (author_repository_create False (Some ds_meta_data_id) None author_data st))"

fun create_fm_authors :: "nat \<Rightarrow> author_data list \<Rightarrow> store \<Rightarrow> store" where
  "create_fm_authors fm_meta_data_id [] st = st"
| "create_fm_authors fm_meta_data_id (author_data # rest) st =
     create_fm_authors fm_meta_data_id rest
       (snd (author_repository_create False None (Some fm_meta_data_id) author_data st))"

text \<open>
  The loop over \<^verbatim>\<open>form.feature_models\<close>. It stops at the first exception, with the
  writes made so far still pending in the session.
\<close>

fun create_feature_models ::
  "(bytes \<Rightarrow> string) \<Rightarrow> filesystem \<Rightarrow> User \<Rightarrow> nat \<Rightarrow> FeatureModelForm list \<Rightarrow> store
     \<Rightarrow> (error + unit) \<times> store" where
  "create_feature_models md5 fs current_user data_set_id [] st = (Inr (), st)"
| "create_feature_models md5 fs current_user data_set_id (feature_model # rest) st =
     (let uvl_filename = fmf_uvl_filename feature_model;
          (fmmetadata, st1) = fmmetadata_repository_create False (get_fmmetadata feature_model) st;
          st2 = create_fm_authors (fmmd_id fmmetadata) (fm_get_authors feature_model) st1;
          (fm, st3) = feature_model_repository_create False data_set_id (fmmd_id fmmetadata) st2;
          file_path = os_path_join (u_temp_folder current_user) uvl_filename
      in case calculate_checksum_and_size md5 fs file_path of
           Inl exc \<Rightarrow> (Inl exc, st3)
         | Inr (checksum, sz) \<Rightarrow>
             (let (file, st4) = hubfilerepository_create False uvl_filename checksum sz (fm_id fm) st3
              in create_feature_models md5 fs current_user data_set_id rest st4))"

text \<open>The body of the \<^verbatim>\<open>try\<close> block of \<^verbatim>\<open>create_from_form\<close>, lines 152 to 192.\<close>

definition create_from_form_try ::
  "(bytes \<Rightarrow> string) \<Rightarrow> filesystem \<Rightarrow> DataSetForm \<Rightarrow> User \<Rightarrow> store \<Rightarrow> (error + DataSet) \<times> store" where
  "create_from_form_try md5 fs form current_user st =
     (let st0 = logger_info (Creating_dsmetadata (get_dsmetadata form)) st;
          (dsmetadata, st1) =
             dsmetadata_repository_create repository_commit_default (get_dsmetadata form) st0;
          dsmetadata_info = get_dsmetadata form;
          is_anonymous = kw_dataset_anonymous dsmetadata_info;
          author_list =
            (if is_anonymous then get_anonymous_authors form
             else (let other_authors = get_authors form
                   in if other_authors \<noteq> [] then other_authors else [main_author current_user]));
          st2 = create_ds_authors (dsmd_id dsmetadata) author_list st1;
          (dataset, st3) = dataset_repository_create False (u_id current_user) (dsmd_id dsmetadata) st2
      in case create_feature_models md5 fs current_user (ds_id dataset) (f_feature_models form) st3 of
           (Inl exc, st4) \<Rightarrow> (Inl exc, st4)
         | (Inr _, st4) \<Rightarrow> (Inr dataset, session_commit st4))"

text \<open>The \<^verbatim>\<open>except\<close> clause: log, roll back, raise the same exception.\<close>

definition create_from_form ::
  "(bytes \<Rightarrow> string) \<Rightarrow> filesystem \<Rightarrow> DataSetForm \<Rightarrow> User \<Rightarrow> store \<Rightarrow> (error + DataSet) \<times> store" where
  "create_from_form md5 fs form current_user st =
     (case create_from_form_try md5 fs form current_user st of
        (Inl exc, st') \<Rightarrow> (Inl exc, session_rollback (logger_info (Exception_creating exc) st'))
      | (Inr dataset, st') \<Rightarrow> (Inr dataset, st'))"

text \<open>
  The author loop of \<^verbatim>\<open>update_from_form\<close> reads \<^verbatim>\<open>dsmetadata.id\<close> on each turn, which
  raises when \<^verbatim>\<open>update\<close> returned \<^verbatim>\<open>None\<close>.
\<close>

fun update_ds_authors :: "DSMetaData option \<Rightarrow> author_data list \<Rightarrow> store \<Rightarrow> (error + unit) \<times> store" where
  "update_ds_authors dsmetadata [] st = (Inr (), st)"
| "update_ds_authors dsmetadata (author_data # rest) st =
     (case dsmetadata of
        None \<Rightarrow> (Inl (AttributeError ''id''), st)
      | Some m \<Rightarrow>
          update_ds_authors dsmetadata rest
            (snd (author_repository_create False (Some (dsmd_id m)) None author_data st)))"

text \<open>The body of the \<^verbatim>\<open>try\<close> block of \<^verbatim>\<open>update_from_form\<close>, lines 108 to 133.\<close>

definition update_from_form_try :: "DataSetForm \<Rightarrow> User \<Rightarrow> DataSet \<Rightarrow> store \<Rightarrow> (error + unit) \<times> store" where
  "update_from_form_try form current_user dataset st =
     (let st0 = logger_info (Updating_dsmetadata (get_dsmetadata form)) st
      in case ds_meta_data_of (session st0) dataset of
           None \<Rightarrow> (Inl (AttributeError ''id''), st0)
         | Some m \<Rightarrow>
             (let (dsmetadata, st1) = dsmetadata_repository_update (dsmd_id m) (get_dsmetadata form) st0;
                  dsmetadata_info = get_dsmetadata form;
                  is_anonymous = kw_dataset_anonymous dsmetadata_info
              in case ds_meta_data_of (session st1) dataset of
                   None \<Rightarrow> (Inl (AttributeError ''id''), st1)
                 | Some m' \<Rightarrow>
                     (let st2 = author_repository_delete_by_ds_meta_data_id (dsmd_id m') st1;
                          author_list =
                            (if is_anonymous then get_anonymous_authors form
                             else (let other_authors = get_authors form
                                   in if other_authors \<noteq> [] then other_authors
                                      else [main_author current_user]))
                      in case update_ds_authors dsmetadata author_list st2 of
                           (Inl exc, st3) \<Rightarrow> (Inl exc, st3)
                         | (Inr _, st3) \<Rightarrow> (Inr (), session_commit st3))))"

definition update_from_form ::
  "DataSetForm \<Rightarrow> User \<Rightarrow> DataSet \<Rightarrow> store \<Rightarrow> (error + DataSet option) \<times> store" where
  "update_from_form form current_user dataset st =
     (case update_from_form_try form current_user dataset st of
        (Inl exc, st') \<Rightarrow> (Inl exc, session_rollback (logger_info (Exception_updating exc) st'))
      | (Inr _, st') \<Rightarrow> (Inr (get_by_id (session st') (ds_id dataset)), st'))"

subsection \<open>\<^verbatim>\<open>populate_form_from_dataset\<close>\<close>

text \<open>
  An \<^verbatim>\<open>AuthorForm\<close> object as the method fills it, given by the data of the three
  fields it assigns.
\<close>

definition author_form :: "Author \<Rightarrow> author_data" where
  "author_form author =
     \<lparr>ad_name = au_name author, ad_affiliation = au_affiliation author, ad_orcid = au_orcid author\<rparr>"

text \<open>
  A field list of the form library (\<^verbatim>\<open>wtforms.FieldList\<close>): its entries, the index of
  the entry added last, and \<open>fl_bind\<close>, what the list makes of the data handed to
  \<^verbatim>\<open>append_entry\<close>: it binds its unbound field under the name of the next index and
  has it process the data. The form classes and the library are not among the sources,
  so \<open>fl_bind\<close> is left open; an entry is whatever it returns. \<^verbatim>\<open>append_entry\<close> is
  \<^verbatim>\<open>_add_entry\<close> without form data: the index after \<^verbatim>\<open>last_index\<close>, which assigning
  \<^verbatim>\<open>entries = []\<close> does not reset.
\<close>

record ('d, 'e) FieldList =
  fl_entries :: "'e list"
  fl_last_index :: int
  fl_bind :: "int \<Rightarrow> 'd \<Rightarrow> 'e"

definition append_entry :: "'d \<Rightarrow> ('d, 'e) FieldList \<Rightarrow> ('d, 'e) FieldList" where
  "append_entry data_given fl =
     (let index = fl_last_index fl + 1
      in fl\<lparr>fl_entries := fl_entries fl @ [fl_bind fl index data_given], fl_last_index := index\<rparr>)"

text \<open>
  Modelled from the spec: the form classes (\<^verbatim>\<open>app/modules/dataset/forms.py\<close>) are not
  among the sources. The form objects the method writes to are given by the data of the
  fields it assigns and by the two field lists it appends to. \<open>'a\<close> and \<open>'b\<close> are the
  author entries of a dataset form and of a feature-model form, \<open>'f\<close> the feature-model
  entries.
\<close>

record 'b FeatureModelForm_object =
  fmo_uvl_filename :: string
  fmo_title :: string
  fmo_desc :: string
  fmo_publication_type :: string
  fmo_publication_doi :: string
  fmo_tags :: string
  fmo_version :: string
  fmo_authors :: "(author_data, 'b) FieldList"

record ('a, 'b, 'f) DataSetForm_object =
  fo_title :: string
  fo_desc :: string
  fo_publication_type :: string
  fo_publication_doi :: string
  fo_dataset_doi :: string
  fo_tags :: string
  fo_dataset_anonymous :: bool
  fo_authors :: "(author_data, 'a) FieldList"
  fo_feature_models :: "('b FeatureModelForm_object, 'f) FieldList"

text \<open>The two author loops, lines 213 to 218 and 235 to 240.\<close>

fun populate_authors :: "Author list \<Rightarrow> (author_data, 'e) FieldList \<Rightarrow> (author_data, 'e) FieldList" where
  "populate_authors [] authors = authors"
| "populate_authors (author # rest) authors =
     populate_authors rest (append_entry (author_form author) authors)"

text \<open>
  The body of the feature-model loop up to the \<^verbatim>\<open>append_entry\<close> of line 242:
  \<open>new_fm_form\<close> is the object \<^verbatim>\<open>FeatureModelForm()\<close> constructs. A feature model
  without metadata row makes the first attribute access raise.
\<close>

definition populate_fm_form ::
  "'b FeatureModelForm_object \<Rightarrow> tables \<Rightarrow> FeatureModel \<Rightarrow> error + 'b FeatureModelForm_object" where
  "populate_fm_form new_fm_form t fm =
     (case fm_meta_data_of t fm of
        None \<Rightarrow> Inl (AttributeError ''uvl_filename'')
      | Some fm_meta_data \<Rightarrow>
          Inr (new_fm_form
                 \<lparr>fmo_uvl_filename := fmmd_uvl_filename fm_meta_data,
                  fmo_title := fmmd_title fm_meta_data,
                  fmo_desc := fmmd_description fm_meta_data,
                  fmo_publication_type := fmmd_publication_type fm_meta_data,
                  fmo_publication_doi := fmmd_publication_doi fm_meta_data,
                  fmo_tags := fmmd_tags fm_meta_data,
                  fmo_version := fmmd_uvl_version fm_meta_data,
                  fmo_authors := populate_authors (fm_authors t (fmmd_id fm_meta_data))
                                   ((fmo_authors new_fm_form)\<lparr>fl_entries := []\<rparr>)\<rparr>))"

fun populate_feature_models ::
  "'b FeatureModelForm_object \<Rightarrow> tables \<Rightarrow> FeatureModel list
     \<Rightarrow> ('b FeatureModelForm_object, 'f) FieldList
     \<Rightarrow> error + ('b FeatureModelForm_object, 'f) FieldList" where
  "populate_feature_models new_fm_form t [] feature_models = Inr feature_models"
| "populate_feature_models new_fm_form t (fm # rest) feature_models =
     (case populate_fm_form new_fm_form t fm of
        Inl exc \<Rightarrow> Inl exc
      | Inr fm_form \<Rightarrow>
          populate_feature_models new_fm_form t rest (append_entry fm_form feature_models))"

definition populate_form_from_dataset ::
  "'b FeatureModelForm_object \<Rightarrow> tables \<Rightarrow> ('a, 'b, 'f) DataSetForm_object \<Rightarrow> DataSet
     \<Rightarrow> error + ('a, 'b, 'f) DataSetForm_object" where
  "populate_form_from_dataset new_fm_form t form dataset =
     (case ds_meta_data_of t dataset of
        None \<Rightarrow> Inl (AttributeError ''title'')
      | Some ds_meta_data \<Rightarrow>
          (let authors = populate_authors (ds_authors t (dsmd_id ds_meta_data))
                           ((fo_authors form)\<lparr>fl_entries := []\<rparr>)
           in case populate_feature_models new_fm_form t (feature_models_of t (ds_id dataset))
                     ((fo_feature_models form)\<lparr>fl_entries := []\<rparr>) of
                Inl exc \<Rightarrow> Inl exc
              | Inr feature_models \<Rightarrow>
                  Inr (form\<lparr>fo_title := dsmd_title ds_meta_data,
                            fo_desc := dsmd_description ds_meta_data,
                            fo_publication_type := dsmd_publication_type ds_meta_data,
                            fo_publication_doi := dsmd_publication_doi ds_meta_data,
                            fo_dataset_doi := dsmd_dataset_doi ds_meta_data,
                            fo_tags := dsmd_tags ds_meta_data,
                            fo_dataset_anonymous := dsmd_dataset_anonymous ds_meta_data,
                            fo_authors := authors,
                            fo_feature_models := feature_models\<rparr>)))"

subsection \<open>\<^verbatim>\<open>get_uvlhub_doi\<close>\<close>

definition get_uvlhub_doi :: "environ \<Rightarrow> tables \<Rightarrow> DataSet \<Rightarrow> error + string" where
  "get_uvlhub_doi env t dataset =
     (let domain = os_getenv env ''DOMAIN'' ''localhost''
      in case ds_meta_data_of t dataset of
           None \<Rightarrow> Inl (AttributeError ''dataset_doi'')
         | Some ds_meta_data \<Rightarrow> Inr (''http://'' @ domain @ ''/doi/'' @ dsmd_dataset_doi ds_meta_data))"

subsection \<open>\<^verbatim>\<open>zip_dataset\<close>\<close>

text \<open>
  An archive is the list of its entries, name and content, in the order they were
  written. \<^verbatim>\<open>ZipFile.write(filename, arcname)\<close> reads the file and appends an entry;
  a directory becomes an entry without content whose name ends in a separator.
\<close>

type_synonym archive = "(string \<times> bytes) list"

definition zipf_write :: "filesystem \<Rightarrow> string \<Rightarrow> string \<Rightarrow> error + (string \<times> bytes)" where
  "zipf_write fs filename arcname =
     (case fs_stat fs filename of
        ENOENT \<Rightarrow> Inl (FileNotFoundError filename)
      | ENOTDIR \<Rightarrow> Inl (NotADirectoryError filename)
      | Node (Dir _) \<Rightarrow> Inr (arcname @ ''/'', [])
      | Node (File content) \<Rightarrow> Inr (arcname, content))"

text \<open>The inner loop, lines 260 to 270: one entry per file name of a walked directory.\<close>

fun zip_files ::
  "filesystem \<Rightarrow> string \<Rightarrow> string \<Rightarrow> string \<Rightarrow> string list \<Rightarrow> archive \<Rightarrow> (error + unit) \<times> archive" where
  "zip_files fs file_path zip_path subdir [] zipf = (Inr (), zipf)"
| "zip_files fs file_path zip_path subdir (file # files) zipf =
     (let full_path = os_path_join subdir file;
          relative_path = os_path_relpath fs full_path file_path
      in case zipf_write fs full_path
                (os_path_join (os_path_basename (take (length zip_path - 4) zip_path)) relative_path) of
           Inl exc \<Rightarrow> (Inl exc, zipf)
         | Inr entry \<Rightarrow> zip_files fs file_path zip_path subdir files (zipf @ [entry]))"

text \<open>The outer loop, line 259, over the triples of \<^verbatim>\<open>os.walk(file_path)\<close>.\<close>

fun zip_walk ::
  "filesystem \<Rightarrow> string \<Rightarrow> string \<Rightarrow> (string \<times> string list \<times> string list) list \<Rightarrow> archive
     \<Rightarrow> (error + unit) \<times> archive" where
  "zip_walk fs file_path zip_path [] zipf = (Inr (), zipf)"
| "zip_walk fs file_path zip_path ((subdir, dirs, files) # rest) zipf =
     (case zip_files fs file_path zip_path subdir files zipf of
        (Inl exc, zipf') \<Rightarrow> (Inl exc, zipf')
      | (Inr _, zipf') \<Rightarrow> zip_walk fs file_path zip_path rest zipf')"

text \<open>
  \<^verbatim>\<open>zip_dataset\<close>, lines 253 to 272. \<^verbatim>\<open>ZipFile(zip_path, "w")\<close> creates the file when
  it is opened; leaving the \<^verbatim>\<open>with\<close> block, normally or by an exception, closes the
  archive and stores its bytes. The encoding of an entry list as the bytes of a zip
  file is the parameter \<open>zip_bytes\<close>.
\<close>

definition zip_dataset ::
  "(archive \<Rightarrow> bytes) \<Rightarrow> string \<Rightarrow> DataSet \<Rightarrow> filesystem \<Rightarrow> (error + string) \<times> filesystem" where
  "zip_dataset zip_bytes candidate dataset fs =
     (let file_path = ''uploads/user_'' @ str_nat (ds_user_id dataset) @ ''/dataset_''
                        @ str_nat (ds_id dataset) @ ''/''
      in case tempfile_mkdtemp candidate fs of
           (Inl exc, fs1) \<Rightarrow> (Inl exc, fs1)
         | (Inr temp_dir, fs1) \<Rightarrow>
             (let zip_path = os_path_join temp_dir (''dataset_'' @ str_nat (ds_id dataset) @ ''.zip'')
              in case write_file zip_path [] fs1 of
                   (Inl exc, fs2) \<Rightarrow> (Inl exc, fs2)
                 | (Inr _, fs2) \<Rightarrow>
                     (case zip_walk fs2 file_path zip_path (os_walk fs2 file_path) [] of
                        (Inl exc, zipf) \<Rightarrow> (Inl exc, snd (write_file zip_path (zip_bytes zipf) fs2))
                      | (Inr _, zipf) \<Rightarrow> (Inr temp_dir, snd (write_file zip_path (zip_bytes zipf) fs2)))))"

subsection \<open>Aggregate statistics\<close>

text \<open>
  A service instance is its attribute dictionary. \<^verbatim>\<open>DataSetService.__init__\<close> calls the
  base constructor with the dataset repository, which the methods read back as
  \<^verbatim>\<open>self.repository\<close>, and then sets the nine attributes of lines 46 to 54. Reading an
  attribute that was never set raises \<^verbatim>\<open>AttributeError\<close>.
\<close>

datatype repository =
    DataSetRepository
  | FeatureModelRepository
  | AuthorRepository
  | DSMetaDataRepository
  | FMMetaDataRepository
  | DSDownloadRecordRepository
  | HubfileDownloadRecordRepository
  | HubfileRepository
  | DSViewRecordRepository
  | HubfileViewRecordRepository

type_synonym service_instance = "(string \<times> repository) list"

definition DataSetService_init :: service_instance where
  "DataSetService_init =
     [(''repository'', DataSetRepository),
      (''feature_model_repository'', FeatureModelRepository),
      (''author_repository'', AuthorRepository),
      (''dsmetadata_repository'', DSMetaDataRepository),
      (''fmmetadata_repository'', FMMetaDataRepository),
      (''dsdownloadrecord_repository'', DSDownloadRecordRepository),
      (''hubfiledownloadrecord_repository'', HubfileDownloadRecordRepository),
      (''hubfilerepository'', HubfileRepository),
      (''dsviewrecord_repostory'', DSViewRecordRepository),
      (''hubfileviewrecord_repository'', HubfileViewRecordRepository)]"

definition getattr :: "service_instance \<Rightarrow> string \<Rightarrow> error + repository" where
  "getattr self name =
     (case map_of self name of None \<Rightarrow> Inl (AttributeError name) | Some v \<Rightarrow> Inr v)"

text \<open>
  Modelled from the spec: the repositories' aggregate queries are not among the sources;
  each is ``a single aggregate query with no side effects'' returning the count of its
  table. The hubfile record tables are not part of this model.
\<close>

definition repository_count :: "repository \<Rightarrow> tables \<Rightarrow> int" where
  "repository_count r t =
     (case r of
        DataSetRepository \<Rightarrow> int (length (t_data_set t))
      | FeatureModelRepository \<Rightarrow> int (length (t_feature_model t))
      | AuthorRepository \<Rightarrow> int (length (t_author t))
      | DSMetaDataRepository \<Rightarrow> int (length (t_ds_meta_data t))
      | FMMetaDataRepository \<Rightarrow> int (length (t_fm_meta_data t))
      | DSDownloadRecordRepository \<Rightarrow> int (length (t_ds_download_record t))
      | HubfileRepository \<Rightarrow> int (length (t_file t))
      | DSViewRecordRepository \<Rightarrow> int (length (t_ds_view_record t))
      | _ \<Rightarrow> 0)"

definition count_feature_models :: "service_instance \<Rightarrow> tables \<Rightarrow> error + int" where
  "count_feature_models self t =
     (case getattr self ''feature_model_service'' of
        Inl exc \<Rightarrow> Inl exc
      | Inr feature_model_service \<Rightarrow> Inr (int (length (t_feature_model t))))"

definition count_authors :: "service_instance \<Rightarrow> tables \<Rightarrow> error + int" where
  "count_authors self t =
     (case getattr self ''author_repository'' of
        Inl exc \<Rightarrow> Inl exc
      | Inr author_repository \<Rightarrow> Inr (repository_count author_repository t))"

definition count_dsmetadata :: "service_instance \<Rightarrow> tables \<Rightarrow> error + int" where
  "count_dsmetadata self t =
     (case getattr self ''dsmetadata_repository'' of
        Inl exc \<Rightarrow> Inl exc
      | Inr dsmetadata_repository \<Rightarrow> Inr (repository_count dsmetadata_repository t))"

definition total_dataset_downloads :: "service_instance \<Rightarrow> tables \<Rightarrow> error + int" where
  "total_dataset_downloads self t =
     (case getattr self ''dsdownloadrecord_repository'' of
        Inl exc \<Rightarrow> Inl exc
      | Inr dsdownloadrecord_repository \<Rightarrow> Inr (repository_count dsdownloadrecord_repository t))"

definition total_dataset_views :: "service_instance \<Rightarrow> tables \<Rightarrow> error + int" where
  "total_dataset_views self t =
     (case getattr self ''dsviewrecord_repostory'' of
        Inl exc \<Rightarrow> Inl exc
      | Inr dsviewrecord_repostory \<Rightarrow> Inr (repository_count dsviewrecord_repostory t))"

section \<open>The visit and download trackers\<close>









section \<open>Notions used to state the properties\<close>

text \<open>
  The specification's author-resolution rule (section 4.4, step 3), in its own words: the
  anonymous list when the form is anonymous, else the explicit co-authors when there are
  any, else the single author derived from the current user's profile, ``Surname, Name''
  with the profile's affiliation and ORCID. The theorems below compare it with the
  author rows the two methods persist.
\<close>

definition spec_author_list :: "DataSetForm \<Rightarrow> User \<Rightarrow> author_data list" where
  "spec_author_list form current_user =
     (if f_dataset_anonymous form then f_anonymous_authors form
      else if f_authors form \<noteq> [] then f_authors form
      else [\<lparr>ad_name = p_surname (u_profile current_user) @ '', '' @ p_name (u_profile current_user),
             ad_affiliation = p_affiliation (u_profile current_user),
             ad_orcid = p_orcid (u_profile current_user)\<rparr>])"

text \<open>The author rows a loop inserts, numbered from the sequence value \<open>n\<close>.\<close>

fun author_rows :: "nat \<Rightarrow> nat option \<Rightarrow> nat option \<Rightarrow> author_data list \<Rightarrow> Author list" where
  "author_rows n ds fm [] = []"
| "author_rows n ds fm (a # rest) =
     \<lparr>au_id = n, au_name = ad_name a, au_affiliation = ad_affiliation a, au_orcid = ad_orcid a,
      au_ds_meta_data_id = ds, au_fm_meta_data_id = fm\<rparr> # author_rows (Suc n) ds fm rest"

text \<open>
  Integrity of the store: every identifier in a table was handed out by its sequence,
  and every foreign key points at an identifier that was handed out.
\<close>

definition fk_below :: "nat option \<Rightarrow> nat \<Rightarrow> bool" where
  "fk_below k n = (case k of None \<Rightarrow> True | Some i \<Rightarrow> i < n)"

definition wf_store :: "store \<Rightarrow> bool" where
  "wf_store st \<longleftrightarrow>
     list_all (\<lambda>m. dsmd_id m < seq_ds_meta_data st) (t_ds_meta_data (session st)) \<and>
     list_all (\<lambda>a. fk_below (au_ds_meta_data_id a) (seq_ds_meta_data st)
                  \<and> fk_below (au_fm_meta_data_id a) (seq_fm_meta_data st)) (t_author (session st)) \<and>
     list_all (\<lambda>d. ds_id d < seq_data_set st) (t_data_set (session st)) \<and>
     list_all (\<lambda>m. fmmd_id m < seq_fm_meta_data st) (t_fm_meta_data (session st)) \<and>
     list_all (\<lambda>fm. fm_data_set_id fm < seq_data_set st
                   \<and> fm_fm_meta_data_id fm < seq_fm_meta_data st) (t_feature_model (session st))"

text \<open>The data model's rule that an author belongs to one metadata owner, never to two.\<close>

definition single_owner :: "Author \<Rightarrow> bool" where
  "single_owner a \<longleftrightarrow> au_ds_meta_data_id a = None \<or> au_fm_meta_data_id a = None"



text \<open>
  The tables a successful \<^verbatim>\<open>update_from_form\<close> leaves: the metadata row overwritten, the
  author rows of that metadata replaced by the resolved list.
\<close>

definition updated_tables :: "DataSetForm \<Rightarrow> User \<Rightarrow> DataSet \<Rightarrow> store \<Rightarrow> tables" where
  "updated_tables form u dataset st =
     (session st)\<lparr>t_ds_meta_data :=
         map (\<lambda>m. if dsmd_id m = ds_ds_meta_data_id dataset then set_dsmetadata (get_dsmetadata form) m else m)
           (t_ds_meta_data (session st)),
       t_author := filter (\<lambda>a. au_ds_meta_data_id a \<noteq> Some (ds_ds_meta_data_id dataset)) (t_author (session st))
          @ author_rows (seq_author st) (Some (ds_ds_meta_data_id dataset)) None (spec_author_list form u)\<rparr>"

text \<open>
  The rows \<^verbatim>\<open>create_from_form\<close> writes before its feature-model loop, and the store at
  the start of that loop: the metadata row is committed, the author rows and the dataset
  row are pending.
\<close>

definition new_dsmetadata :: "DataSetForm \<Rightarrow> nat \<Rightarrow> DSMetaData" where
  "new_dsmetadata form n =
     \<lparr>dsmd_id = n,
      dsmd_title = f_title form,
      dsmd_description = f_desc form,
      dsmd_publication_type = f_publication_type form,
      dsmd_publication_doi = f_publication_doi form,
      dsmd_dataset_doi = f_dataset_doi form,
      dsmd_tags = f_tags form,
      dsmd_dataset_anonymous = f_dataset_anonymous form\<rparr>"

definition new_dataset :: "User \<Rightarrow> store \<Rightarrow> DataSet" where
  "new_dataset u st =
     \<lparr>ds_id = seq_data_set st, ds_user_id = u_id u, ds_ds_meta_data_id = seq_ds_meta_data st\<rparr>"

definition base_store :: "DataSetForm \<Rightarrow> User \<Rightarrow> store \<Rightarrow> store" where
  "base_store form u st =
     st\<lparr>committed := (session st)
          \<lparr>t_ds_meta_data := t_ds_meta_data (session st) @ [new_dsmetadata form (seq_ds_meta_data st)]\<rparr>,
        session := (session st)
          \<lparr>t_ds_meta_data := t_ds_meta_data (session st) @ [new_dsmetadata form (seq_ds_meta_data st)],
           t_author := t_author (session st) @
              author_rows (seq_author st) (Some (seq_ds_meta_data st)) None (spec_author_list form u),
           t_data_set := t_data_set (session st) @ [new_dataset u st]\<rparr>,
        seq_ds_meta_data := Suc (seq_ds_meta_data st),
        seq_author := seq_author st + length (spec_author_list form u),
        seq_data_set := Suc (seq_data_set st),
        log := log st @ [Creating_dsmetadata (get_dsmetadata form)]\<rparr>"

text \<open>
  One turn of the feature-model loop: the rows written before the checksum is computed,
  and the file row written after it.
\<close>

definition fm_step :: "FeatureModelForm \<Rightarrow> nat \<Rightarrow> store \<Rightarrow> store" where
  "fm_step fmf d st =
     st\<lparr>session := (session st)
          \<lparr>t_fm_meta_data := t_fm_meta_data (session st) @
              [\<lparr>fmmd_id = seq_fm_meta_data st,
                fmmd_uvl_filename = fmf_uvl_filename fmf,
                fmmd_title = fmf_title fmf,
                fmmd_description = fmf_desc fmf,
                fmmd_publication_type = fmf_publication_type fmf,
                fmmd_publication_doi = fmf_publication_doi fmf,
                fmmd_tags = fmf_tags fmf,
                fmmd_uvl_version = fmf_version fmf\<rparr>],
           t_author := t_author (session st) @
              author_rows (seq_author st) None (Some (seq_fm_meta_data st)) (fmf_authors fmf),
           t_feature_model := t_feature_model (session st) @
              [\<lparr>fm_id = seq_feature_model st, fm_data_set_id = d,
                fm_fm_meta_data_id = seq_fm_meta_data st\<rparr>]\<rparr>,
        seq_fm_meta_data := Suc (seq_fm_meta_data st),
        seq_author := seq_author st + length (fmf_authors fmf),
        seq_feature_model := Suc (seq_feature_model st)\<rparr>"

definition fm_file :: "FeatureModelForm \<Rightarrow> string \<Rightarrow> int \<Rightarrow> store \<Rightarrow> store" where
  "fm_file fmf checksum sz st =
     st\<lparr>session := (session st)
          \<lparr>t_file := t_file (session st) @
              [\<lparr>hf_id = seq_file st, hf_name = fmf_uvl_filename fmf, hf_checksum = checksum,
                hf_size = sz, hf_feature_model_id = seq_feature_model st - 1\<rparr>]\<rparr>,
        seq_file := Suc (seq_file st)\<rparr>"

text \<open>
  A well-formed directory tree: entry names are non-empty, free of separators, different
  from \<^verbatim>\<open>.\<close> and \<^verbatim>\<open>..\<close>, and distinct within a directory.
\<close>

definition clean_name :: "string \<Rightarrow> bool" where
  "clean_name k \<longleftrightarrow> k \<noteq> [] \<and> CHR ''/'' \<notin> set k \<and> k \<noteq> ''.'' \<and> k \<noteq> ''..''"

fun wf_node :: "fsnode \<Rightarrow> bool"
  and wf_entries :: "(string \<times> fsnode) list \<Rightarrow> bool" where
  "wf_node (File b) = True"
| "wf_node (Dir es) = (distinct (map fst es) \<and> wf_entries es)"
| "wf_entries [] = True"
| "wf_entries ((k, n) # es) = (clean_name k \<and> wf_node n \<and> wf_entries es)"

definition wf_fs :: "filesystem \<Rightarrow> bool" where
  "wf_fs fs \<longleftrightarrow> wf_node (fs_root fs) \<and> list_all clean_name (fs_cwd fs)"

text \<open>
  The files below a directory, each with its path relative to that directory, given
  by its components: the directory's own files first, then those of each subdirectory.
\<close>

fun files_under :: "fsnode \<Rightarrow> (string list \<times> bytes) list"
  and files_in :: "(string \<times> fsnode) list \<Rightarrow> (string list \<times> bytes) list"
  and files_below :: "(string \<times> fsnode) list \<Rightarrow> (string list \<times> bytes) list" where
  "files_under (File b) = []"
| "files_under (Dir es) = files_in es @ files_below es"
| "files_in [] = []"
| "files_in ((k, n) # es) = (case n of File b \<Rightarrow> [([k], b)] | Dir _ \<Rightarrow> []) @ files_in es"
| "files_below [] = []"
| "files_below ((k, n) # es) = map (\<lambda>(p, b). (k # p, b)) (files_under n) @ files_below es"

text \<open>
  The archive entry expected for a file: the root folder, a separator, and the
  components of the relative path joined by separators.
\<close>

definition slash_join :: "string list \<Rightarrow> string" where
  "slash_join cs = (if cs = [] then [] else foldl (\<lambda>a b. a @ ''/'' @ b) (hd cs) (tl cs))"

definition archive_entry :: "string \<Rightarrow> string list \<Rightarrow> string list \<times> bytes \<Rightarrow> string \<times> bytes" where
  "archive_entry root rel0 e = (root @ ''/'' @ slash_join (rel0 @ fst e), snd e)"

text \<open>Two paths that part ways at some component: neither lies inside the other.\<close>

fun diverge :: "'a list \<Rightarrow> 'a list \<Rightarrow> bool" where
  "diverge (x # xs) (y # ys) = (x \<noteq> y \<or> diverge xs ys)"
| "diverge xs ys = False"

text \<open>
  What a walk needs to know of its surroundings: where the upload directory is, what
  it holds, and the name of the archive's root folder.
\<close>

definition zip_ctx ::
  "filesystem \<Rightarrow> string \<Rightarrow> string \<Rightarrow> string list \<Rightarrow> fsnode \<Rightarrow> string \<Rightarrow> bool" where
  "zip_ctx fs file_path zip_path U updir root \<longleftrightarrow>
     abs_components fs file_path = U \<and> lookup_node (fs_root fs) U = Node updir
     \<and> os_path_basename (take (length zip_path - 4) zip_path) = root
     \<and> root \<noteq> [] \<and> last root \<noteq> CHR ''/''"

text \<open>
  The upload directory of a dataset, the root folder of its archive, and the entries
  the specification expects in the archive: every file below the upload directory,
  nothing when the directory is missing.
\<close>

definition upload_path :: "DataSet \<Rightarrow> string" where
  "upload_path dataset =
     ''uploads/user_'' @ str_nat (ds_user_id dataset) @ ''/dataset_'' @ str_nat (ds_id dataset) @ ''/''"

definition root_folder :: "DataSet \<Rightarrow> string" where
  "root_folder dataset = ''dataset_'' @ str_nat (ds_id dataset)"

definition expected_archive :: "filesystem \<Rightarrow> DataSet \<Rightarrow> archive" where
  "expected_archive fs dataset =
     (case fs_stat fs (upload_path dataset) of
        Node updir \<Rightarrow> map (archive_entry (root_folder dataset) []) (files_under updir)
      | _ \<Rightarrow> [])"

text \<open>
  What \<^verbatim>\<open>tempfile.mkdtemp\<close> guarantees of the path it draws: it is absolute, nothing
  exists at it, and its parent is a directory.
\<close>

definition fresh_temp_dir :: "filesystem \<Rightarrow> string \<Rightarrow> bool" where
  "fresh_temp_dir fs candidate \<longleftrightarrow>
     is_abs candidate \<and>
     (let cs = abs_components fs candidate
      in cs \<noteq> [] \<and>
         (case lookup_node (fs_root fs) (butlast cs) of
            Node (Dir es) \<Rightarrow> last cs \<notin> set (map fst es)
          | _ \<Rightarrow> False))"


text \<open>
  What the database holds for a feature model, presented as the values a
  \<^verbatim>\<open>FeatureModelForm\<close> carries: the fields of its metadata row and its authors.
\<close>

definition stored_fm_form :: "tables \<Rightarrow> FeatureModel \<Rightarrow> error + FeatureModelForm" where
  "stored_fm_form t fm =
     (case fm_meta_data_of t fm of
        None \<Rightarrow> Inl (AttributeError ''uvl_filename'')
      | Some fm_meta_data \<Rightarrow>
          Inr \<lparr>fmf_uvl_filename = fmmd_uvl_filename fm_meta_data,
               fmf_title = fmmd_title fm_meta_data,
               fmf_desc = fmmd_description fm_meta_data,
               fmf_publication_type = fmmd_publication_type fm_meta_data,
               fmf_publication_doi = fmmd_publication_doi fm_meta_data,
               fmf_tags = fmmd_tags fm_meta_data,
               fmf_version = fmmd_uvl_version fm_meta_data,
               fmf_authors = map author_form (fm_authors t (fmmd_id fm_meta_data))\<rparr>)"

fun stored_fm_forms :: "tables \<Rightarrow> FeatureModel list \<Rightarrow> error + FeatureModelForm list" where
  "stored_fm_forms t [] = Inr []"
| "stored_fm_forms t (fm # rest) =
     (case stored_fm_form t fm of
        Inl exc \<Rightarrow> Inl exc
      | Inr fm_form \<Rightarrow>
          (case stored_fm_forms t rest of
             Inl exc \<Rightarrow> Inl exc
           | Inr fm_forms \<Rightarrow> Inr (fm_form # fm_forms)))"

text \<open>
  The entries a field list makes of the data handed to it one after the other, the first
  under the index after \<open>l\<close>.
\<close>

fun bound_from :: "(int \<Rightarrow> 'd \<Rightarrow> 'e) \<Rightarrow> int \<Rightarrow> 'd list \<Rightarrow> 'e list" where
  "bound_from b l [] = []"
| "bound_from b l (d # ds) = b (l + 1) d # bound_from b (l + 1) ds"

text \<open>
  The \<^verbatim>\<open>FeatureModelForm\<close> object that carries given values: a newly constructed one
  with the seven fields assigned and one author form handed to its author list per author.
\<close>

definition handed_fm_form :: "'b FeatureModelForm_object \<Rightarrow> FeatureModelForm \<Rightarrow> 'b FeatureModelForm_object" where
  "handed_fm_form new_fm_form fmf =
     new_fm_form
       \<lparr>fmo_uvl_filename := fmf_uvl_filename fmf,
        fmo_title := fmf_title fmf,
        fmo_desc := fmf_desc fmf,
        fmo_publication_type := fmf_publication_type fmf,
        fmo_publication_doi := fmf_publication_doi fmf,
        fmo_tags := fmf_tags fmf,
        fmo_version := fmf_version fmf,
        fmo_authors := (fmo_authors new_fm_form)
          \<lparr>fl_entries := bound_from (fl_bind (fmo_authors new_fm_form))
                           (fl_last_index (fmo_authors new_fm_form)) (fmf_authors fmf),
           fl_last_index := fl_last_index (fmo_authors new_fm_form) + int (length (fmf_authors fmf))\<rparr>\<rparr>"

section \<open>Example inputs\<close>

definition example_metadata :: DSMetaData where
  "example_metadata =
     \<lparr>dsmd_id = 1, dsmd_title = ''t'', dsmd_description = ''d'', dsmd_publication_type = ''none'',
      dsmd_publication_doi = [], dsmd_dataset_doi = ''10.1234/ds'', dsmd_tags = [],
      dsmd_dataset_anonymous = False\<rparr>"

definition example_dataset :: DataSet where
  "example_dataset = \<lparr>ds_id = 7, ds_user_id = 3, ds_ds_meta_data_id = 1\<rparr>"

definition example_tables :: tables where
  "example_tables =
     \<lparr>t_ds_meta_data = [example_metadata], t_author = [], t_data_set = [example_dataset],
      t_fm_meta_data = [], t_feature_model = [], t_file = [],
      t_ds_download_record = [], t_ds_view_record = []\<rparr>"

text \<open>
  A user, three submissions (no co-authors, anonymous, one co-author), a file system with
  and without the uploaded file, a store that already holds a dataset with an author and
  a feature model, and a stand-in for the digest.
\<close>

definition empty_tables :: tables where
  "empty_tables =
     \<lparr>t_ds_meta_data = [], t_author = [], t_data_set = [], t_fm_meta_data = [],
      t_feature_model = [], t_file = [], t_ds_download_record = [], t_ds_view_record = []\<rparr>"

definition empty_store :: store where
  "empty_store =
     \<lparr>committed = empty_tables, session = empty_tables, seq_ds_meta_data = 0, seq_author = 0,
      seq_data_set = 0, seq_fm_meta_data = 0, seq_feature_model = 0, seq_file = 0, log = []\<rparr>"

definition example_user :: User where
  "example_user =
     \<lparr>u_id = 3,
      u_profile = \<lparr>p_surname = ''Doe'', p_name = ''Jane'', p_affiliation = ''US'', p_orcid = ''0000-0001''\<rparr>,
      u_temp_folder = ''/tmp/user_3''\<rparr>"

definition example_coauthor :: author_data where
  "example_coauthor = \<lparr>ad_name = ''Roe, Rick'', ad_affiliation = ''UMA'', ad_orcid = ''0000-0002''\<rparr>"

definition example_anonymous_author :: author_data where
  "example_anonymous_author = \<lparr>ad_name = ''Anonymous'', ad_affiliation = [], ad_orcid = []\<rparr>"

definition example_fm_form :: FeatureModelForm where
  "example_fm_form =
     \<lparr>fmf_uvl_filename = ''model.uvl'', fmf_title = ''M'', fmf_desc = ''a model'',
      fmf_publication_type = ''none'', fmf_publication_doi = [], fmf_tags = ''uvl'',
      fmf_version = ''1.0'', fmf_authors = [example_coauthor]\<rparr>"

definition example_form :: DataSetForm where
  "example_form =
     \<lparr>f_title = ''T'', f_desc = ''a dataset'', f_publication_type = ''none'',
      f_publication_doi = [], f_dataset_doi = [], f_tags = ''tag'', f_dataset_anonymous = False,
      f_authors = [], f_anonymous_authors = [], f_feature_models = [example_fm_form]\<rparr>"

definition example_anonymous_form :: DataSetForm where
  "example_anonymous_form =
     example_form\<lparr>f_dataset_anonymous := True, f_authors := [example_coauthor],
                  f_anonymous_authors := [example_anonymous_author]\<rparr>"

definition example_coauthor_form :: DataSetForm where
  "example_coauthor_form = example_form\<lparr>f_authors := [example_coauthor]\<rparr>"

definition example_md5 :: "bytes \<Rightarrow> string" where
  "example_md5 content = ''0cc175b9c0f1b6a831c399e269772661''"

definition empty_fs :: filesystem where
  "empty_fs = \<lparr>fs_root = Dir [(''tmp'', Dir [(''user_3'', Dir [])])], fs_cwd = [''app'']\<rparr>"

definition uploaded_fs :: filesystem where
  "uploaded_fs =
     \<lparr>fs_root = Dir [(''tmp'', Dir [(''user_3'', Dir [(''model.uvl'', File ''features'')])])],
      fs_cwd = [''app'']\<rparr>"

definition example_old_author :: Author where
  "example_old_author =
     \<lparr>au_id = 0, au_name = ''Old, Author'', au_affiliation = ''US'', au_orcid = [],
      au_ds_meta_data_id = Some 1, au_fm_meta_data_id = None\<rparr>"

definition example_fm_author :: Author where
  "example_fm_author =
     \<lparr>au_id = 1, au_name = ''Model, Author'', au_affiliation = ''UMA'', au_orcid = [],
      au_ds_meta_data_id = None, au_fm_meta_data_id = Some 0\<rparr>"

definition example_fm_meta_data :: FMMetaData where
  "example_fm_meta_data =
     \<lparr>fmmd_id = 0, fmmd_uvl_filename = ''model.uvl'', fmmd_title = ''M'', fmmd_description = ''a model'',
      fmmd_publication_type = ''none'', fmmd_publication_doi = [], fmmd_tags = ''uvl'',
      fmmd_uvl_version = ''1.0''\<rparr>"

definition example_feature_model :: FeatureModel where
  "example_feature_model = \<lparr>fm_id = 0, fm_data_set_id = 7, fm_fm_meta_data_id = 0\<rparr>"

definition example_file :: Hubfile where
  "example_file =
     \<lparr>hf_id = 0, hf_name = ''model.uvl'', hf_checksum = ''0cc175b9c0f1b6a831c399e269772661'',
      hf_size = 8, hf_feature_model_id = 0\<rparr>"

definition stored_tables :: tables where
  "stored_tables =
     \<lparr>t_ds_meta_data = [example_metadata], t_author = [example_old_author, example_fm_author],
      t_data_set = [example_dataset], t_fm_meta_data = [example_fm_meta_data],
      t_feature_model = [example_feature_model], t_file = [example_file],
      t_ds_download_record = [], t_ds_view_record = []\<rparr>"

definition stored_store :: store where
  "stored_store =
     \<lparr>committed = stored_tables, session = stored_tables, seq_ds_meta_data = 2, seq_author = 2,
      seq_data_set = 8, seq_fm_meta_data = 1, seq_feature_model = 1, seq_file = 1, log = []\<rparr>"



text \<open>
  An upload directory with files at three depths beside an empty temporary directory,
  and a stand-in for the encoding of an archive.
\<close>

definition example_uploads_fs :: filesystem where
  "example_uploads_fs =
     \<lparr>fs_root = Dir [(''tmp'', Dir []),
        (''app'', Dir [(''uploads'', Dir [(''user_3'', Dir [(''dataset_7'',
           Dir [(''a.uvl'', File ''aaa''),
                (''sub'', Dir [(''b.uvl'', File ''bb''), (''deep'', Dir [(''c.txt'', File ''c'')])]),
                (''z.uvl'', File ''zz'')])])])])],
      fs_cwd = [''app'']\<rparr>"

definition example_zip_bytes :: "archive \<Rightarrow> bytes" where
  "example_zip_bytes zipf = concat (map (\<lambda>e. fst e @ '':'' @ snd e @ '';'') zipf)"

definition missing_uploads_fs :: filesystem where
  "missing_uploads_fs = \<lparr>fs_root = Dir [(''tmp'', Dir []), (''app'', Dir [])], fs_cwd = [''app'']\<rparr>"

text \<open>
  Form objects whose field lists keep, as an entry, the index and the data handed over.
\<close>

definition example_new_fm_form :: "(int \<times> author_data) FeatureModelForm_object" where
  "example_new_fm_form =
     \<lparr>fmo_uvl_filename = [], fmo_title = [], fmo_desc = [], fmo_publication_type = [],
      fmo_publication_doi = [], fmo_tags = [], fmo_version = [],
      fmo_authors = \<lparr>fl_entries = [], fl_last_index = - 1, fl_bind = Pair\<rparr>\<rparr>"

definition example_form_object ::
  "(int \<times> author_data, int \<times> author_data,
    int \<times> (int \<times> author_data) FeatureModelForm_object) DataSetForm_object" where
  "example_form_object =
     \<lparr>fo_title = [], fo_desc = [], fo_publication_type = [], fo_publication_doi = [],
      fo_dataset_doi = [], fo_tags = [], fo_dataset_anonymous = False,
      fo_authors = \<lparr>fl_entries = [], fl_last_index = - 1, fl_bind = Pair\<rparr>,
      fo_feature_models = \<lparr>fl_entries = [], fl_last_index = 0, fl_bind = Pair\<rparr>\<rparr>"


section \<open>Properties\<close>

subsection \<open>Human-readable sizes\<close>





subsection \<open>The DOI resolution address\<close>

text \<open>
  Claim C10. For a dataset with its metadata row, \<^verbatim>\<open>get_uvlhub_doi\<close> returns
  \<^verbatim>\<open>http://\<close>, the domain, \<^verbatim>\<open>/doi/\<close> and the dataset DOI, where the domain is the value
  of the environment variable \<^verbatim>\<open>DOMAIN\<close>, and \<^verbatim>\<open>localhost\<close> when the variable is unset.
\<close>

theorem get_uvlhub_doi_url:
  assumes "ds_meta_data_of t dataset = Some m"
  shows "(\<forall>d. env ''DOMAIN'' = Some d \<longrightarrow>
            get_uvlhub_doi env t dataset = Inr (''http://'' @ d @ ''/doi/'' @ dsmd_dataset_doi m))
    \<and> (env ''DOMAIN'' = None \<longrightarrow>
            get_uvlhub_doi env t dataset = Inr (''http://localhost/doi/'' @ dsmd_dataset_doi m))"
  using assms by (simp add: get_uvlhub_doi_def os_getenv_def)

theorem get_uvlhub_doi_url_witness:
  "ds_meta_data_of example_tables example_dataset = Some example_metadata
    \<and> get_uvlhub_doi Map.empty example_tables example_dataset = Inr ''http://localhost/doi/10.1234/ds''
    \<and> get_uvlhub_doi [''DOMAIN'' \<mapsto> ''uvlhub.io''] example_tables example_dataset
        = Inr ''http://uvlhub.io/doi/10.1234/ds''"
proof -
  have h: "ds_meta_data_of example_tables example_dataset = Some example_metadata"
    by (simp add: ds_meta_data_of_def example_tables_def example_dataset_def example_metadata_def)
  have doi: "dsmd_dataset_doi example_metadata = ''10.1234/ds''"
    by (simp add: example_metadata_def)
  show ?thesis
    using h get_uvlhub_doi_url [OF h, of Map.empty]
      get_uvlhub_doi_url [OF h, of "[''DOMAIN'' \<mapsto> ''uvlhub.io'']"] doi
    by simp
qed

subsection \<open>Aggregate statistics\<close>

text \<open>
  Claim C9. On a service built by \<^verbatim>\<open>DataSetService.__init__\<close>, \<^verbatim>\<open>count_feature_models\<close>
  raises \<^verbatim>\<open>AttributeError\<close> whatever the tables hold, because the constructor sets
  \<^verbatim>\<open>feature_model_repository\<close> and no \<^verbatim>\<open>feature_model_service\<close>; the sibling methods
  read attributes the constructor did set and return the count of their table.
\<close>

theorem count_feature_models_raises:
  "count_feature_models DataSetService_init t = Inl (AttributeError ''feature_model_service'')
    \<and> count_authors DataSetService_init t = Inr (int (length (t_author t)))
    \<and> count_dsmetadata DataSetService_init t = Inr (int (length (t_ds_meta_data t)))
    \<and> total_dataset_downloads DataSetService_init t = Inr (int (length (t_ds_download_record t)))
    \<and> total_dataset_views DataSetService_init t = Inr (int (length (t_ds_view_record t)))"
  by (simp add: count_feature_models_def count_authors_def count_dsmetadata_def
      total_dataset_downloads_def total_dataset_views_def getattr_def DataSetService_init_def
      repository_count_def)

subsection \<open>The author loops\<close>

lemma author_form_author_rows [simp]: "map author_form (author_rows n ds fm as) = as"
  by (induction as arbitrary: n) (simp_all add: author_form_def)

lemma length_author_rows [simp]: "length (author_rows n ds fm as) = length as"
  by (induction as arbitrary: n) simp_all

lemma author_rows_owner:
  "a \<in> set (author_rows n ds fm as) \<Longrightarrow> au_ds_meta_data_id a = ds \<and> au_fm_meta_data_id a = fm"
  by (induction as arbitrary: n) auto

lemma filter_author_rows_ds:
  "filter (\<lambda>a. au_ds_meta_data_id a = Some i) (author_rows n ds fm as)
     = (if ds = Some i then author_rows n ds fm as else [])"
  by (induction as arbitrary: n) auto

lemma filter_author_rows_fm:
  "filter (\<lambda>a. au_fm_meta_data_id a = Some i) (author_rows n ds fm as)
     = (if fm = Some i then author_rows n ds fm as else [])"
  by (induction as arbitrary: n) auto

lemma create_ds_authors_eq:
  "create_ds_authors i as st =
     st\<lparr>session := (session st)\<lparr>t_author := t_author (session st) @ author_rows (seq_author st) (Some i) None as\<rparr>,
        seq_author := seq_author st + length as\<rparr>"
  by (induction as arbitrary: st) (simp_all add: author_repository_create_def finish_write_def Let_def)

lemma create_fm_authors_eq:
  "create_fm_authors i as st =
     st\<lparr>session := (session st)\<lparr>t_author := t_author (session st) @ author_rows (seq_author st) None (Some i) as\<rparr>,
        seq_author := seq_author st + length as\<rparr>"
  by (induction as arbitrary: st) (simp_all add: author_repository_create_def finish_write_def Let_def)

lemma update_ds_authors_eq:
  "update_ds_authors (Some m) as st =
     (Inr (), st\<lparr>session := (session st)\<lparr>t_author := t_author (session st) @ author_rows (seq_author st) (Some (dsmd_id m)) None as\<rparr>,
        seq_author := seq_author st + length as\<rparr>)"
  by (induction as arbitrary: st) (simp_all add: author_repository_create_def finish_write_def Let_def)

lemma author_list_spec:
  "(if kw_dataset_anonymous (get_dsmetadata form) then get_anonymous_authors form
    else if get_authors form \<noteq> [] then get_authors form else [main_author u])
   = spec_author_list form u"
  by (simp add: spec_author_list_def get_dsmetadata_def get_anonymous_authors_def get_authors_def
      main_author_def Let_def)

lemma find_append_eq:
  "find P (xs @ ys) = (case find P xs of None \<Rightarrow> find P ys | Some x \<Rightarrow> Some x)"
  by (induction xs) simp_all

lemma find_None_all: "list_all (\<lambda>x. \<not> P x) xs \<Longrightarrow> find P xs = None"
  by (induction xs) simp_all

lemma filter_fk_below_ds:
  "wf_store st \<Longrightarrow>
     filter (\<lambda>a. au_ds_meta_data_id a = Some (seq_ds_meta_data st)) (t_author (session st)) = []"
  by (auto simp: wf_store_def list_all_iff filter_empty_conv fk_below_def)

lemma filter_fk_below_fm:
  "wf_store st \<Longrightarrow>
     filter (\<lambda>a. au_fm_meta_data_id a = Some (seq_fm_meta_data st)) (t_author (session st)) = []"
  by (auto simp: wf_store_def list_all_iff filter_empty_conv fk_below_def)

lemma filter_single_owner:
  assumes "list_all single_owner xs"
  shows "filter (\<lambda>a. au_fm_meta_data_id a = Some i) (filter (\<lambda>a. au_ds_meta_data_id a \<noteq> Some k) xs)
       = filter (\<lambda>a. au_fm_meta_data_id a = Some i) xs"
  using assms by (induction xs) (auto simp: single_owner_def)

subsection \<open>\<^verbatim>\<open>update_from_form\<close>\<close>

lemma find_map_update:
  assumes "\<And>m. dsmd_id (f m) = dsmd_id m"
  shows "find (\<lambda>m. dsmd_id m = i) (map (\<lambda>m. if dsmd_id m = i then f m else m) xs)
       = map_option f (find (\<lambda>m. dsmd_id m = i) xs)"
  by (induction xs) (simp_all add: assms)

lemma dsmd_id_set_dsmetadata [simp]: "dsmd_id (set_dsmetadata kw m) = dsmd_id m"
  by (simp add: set_dsmetadata_def)

lemma ds_meta_data_of_id: "ds_meta_data_of t d = Some m \<Longrightarrow> dsmd_id m = ds_ds_meta_data_id d"
  by (auto simp: ds_meta_data_of_def find_Some_iff)

lemma update_from_form_try_Some:
  assumes "ds_meta_data_of (session st) dataset = Some m"
  shows "update_from_form_try form u dataset st =
     (Inr (), st\<lparr>committed := updated_tables form u dataset st,
                session := updated_tables form u dataset st,
                seq_author := seq_author st + length (spec_author_list form u),
                log := log st @ [Updating_dsmetadata (get_dsmetadata form)]\<rparr>)"
proof -
  have i: "dsmd_id m = ds_ds_meta_data_id dataset"
    using assms by (rule ds_meta_data_of_id)
  have f: "find (\<lambda>m. dsmd_id m = ds_ds_meta_data_id dataset) (t_ds_meta_data (session st)) = Some m"
    using assms by (simp add: ds_meta_data_of_def)
  show ?thesis
    unfolding update_from_form_try_def Let_def author_list_spec
    using f
    by (simp add: assms i logger_info_def dsmetadata_repository_update_def finish_write_def
        repository_commit_default_def session_commit_def ds_meta_data_of_def find_map_update
        author_repository_delete_by_ds_meta_data_id_def update_ds_authors_eq updated_tables_def Let_def)
qed

lemma update_from_form_try_None:
  assumes "ds_meta_data_of (session st) dataset = None"
  shows "update_from_form_try form u dataset st =
     (Inl (AttributeError ''id''), logger_info (Updating_dsmetadata (get_dsmetadata form)) st)"
  using assms by (simp add: update_from_form_try_def logger_info_def Let_def)

lemma update_from_form_Inr:
  assumes "update_from_form form u dataset st = (Inr r, st')"
  shows "committed st' = updated_tables form u dataset st
    \<and> session st' = updated_tables form u dataset st
    \<and> (\<exists>m. ds_meta_data_of (session st) dataset = Some m)"
proof (cases "ds_meta_data_of (session st) dataset")
  case None
  with assms show ?thesis
    by (simp add: update_from_form_def update_from_form_try_None)
next
  case (Some m)
  with assms show ?thesis
    by (auto simp: update_from_form_def update_from_form_try_Some)
qed

lemma ds_authors_updated:
  "ds_authors (updated_tables form u dataset st) (ds_ds_meta_data_id dataset)
     = author_rows (seq_author st) (Some (ds_ds_meta_data_id dataset)) None (spec_author_list form u)"
  by (simp add: ds_authors_def updated_tables_def filter_author_rows_ds)

subsection \<open>The feature-model loop\<close>

lemma create_feature_models_Cons:
  "create_feature_models md5 fs u d (fmf # rest) st =
     (case calculate_checksum_and_size md5 fs (os_path_join (u_temp_folder u) (fmf_uvl_filename fmf)) of
        Inl exc \<Rightarrow> (Inl exc, fm_step fmf d st)
      | Inr (checksum, sz) \<Rightarrow>
          create_feature_models md5 fs u d rest (fm_file fmf checksum sz (fm_step fmf d st)))"
  by (simp add: fm_step_def fm_file_def fmmetadata_repository_create_def get_fmmetadata_def
      fm_get_authors_def create_fm_authors_eq feature_model_repository_create_def
      hubfilerepository_create_def finish_write_def Let_def split: sum.splits prod.splits)

lemma create_feature_models_frame:
  "create_feature_models md5 fs u d fms st = (r, st') \<Longrightarrow>
     committed st' = committed st \<and> log st' = log st
     \<and> t_ds_meta_data (session st') = t_ds_meta_data (session st)
     \<and> t_data_set (session st') = t_data_set (session st)
     \<and> t_ds_download_record (session st') = t_ds_download_record (session st)
     \<and> t_ds_view_record (session st') = t_ds_view_record (session st)
     \<and> ds_authors (session st') i = ds_authors (session st) i
     \<and> seq_ds_meta_data st' = seq_ds_meta_data st
     \<and> seq_data_set st' = seq_data_set st"
proof (induction fms arbitrary: st)
  case Nil
  then show ?case by simp
next
  case (Cons fmf rest)
  show ?case
  proof (cases "calculate_checksum_and_size md5 fs (os_path_join (u_temp_folder u) (fmf_uvl_filename fmf))")
    case (Inl exc)
    with Cons.prems have "st' = fm_step fmf d st"
      by (simp add: create_feature_models_Cons del: create_feature_models.simps)
    then show ?thesis
      by (simp add: fm_step_def ds_authors_def filter_author_rows_ds)
  next
    case (Inr p)
    obtain c sz where p: "p = (c, sz)" by (cases p)
    with Inr Cons.prems
    have "create_feature_models md5 fs u d rest (fm_file fmf c sz (fm_step fmf d st)) = (r, st')"
      by (simp add: create_feature_models_Cons del: create_feature_models.simps)
    from Cons.IH [OF this] show ?thesis
      by (simp add: fm_step_def fm_file_def ds_authors_def filter_author_rows_ds)
  qed
qed

lemma wf_store_fm_step:
  assumes "wf_store st" "d < seq_data_set st"
  shows "wf_store (fm_file fmf c sz (fm_step fmf d st))"
  using assms
  by (auto simp: wf_store_def fm_step_def fm_file_def list_all_iff fk_below_def less_Suc_eq
      dest!: author_rows_owner split: option.splits)

lemma stored_fm_forms_append:
  "stored_fm_forms t xs = Inr a \<Longrightarrow> stored_fm_form t y = Inr b \<Longrightarrow>
     stored_fm_forms t (xs @ [y]) = Inr (a @ [b])"
  by (induction xs arbitrary: a) (auto split: sum.splits)

lemma stored_fm_form_old:
  assumes "wf_store st" "fm_fm_meta_data_id fm < seq_fm_meta_data st"
  shows "stored_fm_form (session (fm_file fmf c sz (fm_step fmf d st))) fm
       = stored_fm_form (session st) fm"
proof (cases "fm_meta_data_of (session st) fm")
  case None
  then show ?thesis
    using assms(2)
    by (simp add: stored_fm_form_def fm_meta_data_of_def fm_step_def fm_file_def find_append_eq)
next
  case (Some m)
  then have "fmmd_id m = fm_fm_meta_data_id fm"
    by (auto simp: fm_meta_data_of_def find_Some_iff)
  with Some assms(2) show ?thesis
    by (simp add: stored_fm_form_def fm_meta_data_of_def fm_step_def fm_file_def find_append_eq
        fm_authors_def filter_author_rows_fm)
qed

lemma stored_fm_forms_old:
  assumes "wf_store st" "list_all (\<lambda>fm. fm_fm_meta_data_id fm < seq_fm_meta_data st) xs"
  shows "stored_fm_forms (session (fm_file fmf c sz (fm_step fmf d st))) xs
       = stored_fm_forms (session st) xs"
  using assms(2) by (induction xs) (simp_all add: stored_fm_form_old [OF assms(1)] cong: sum.case_cong)

lemma stored_fm_form_new:
  assumes "wf_store st"
  shows "stored_fm_form (session (fm_file fmf c sz (fm_step fmf d st)))
           \<lparr>fm_id = seq_feature_model st, fm_data_set_id = d, fm_fm_meta_data_id = seq_fm_meta_data st\<rparr>
       = Inr fmf"
proof -
  have old: "find (\<lambda>m. fmmd_id m = seq_fm_meta_data st) (t_fm_meta_data (session st)) = None"
    using assms by (intro find_None_all) (auto simp: wf_store_def list_all_iff)
  have au: "filter (\<lambda>a. au_fm_meta_data_id a = Some (seq_fm_meta_data st)) (t_author (session st)) = []"
    using assms by (rule filter_fk_below_fm)
  show ?thesis
    by (simp add: stored_fm_form_def fm_meta_data_of_def fm_step_def fm_file_def find_append_eq
        old au fm_authors_def filter_author_rows_fm)
qed

lemma create_feature_models_populate:
  assumes "create_feature_models md5 fs u d fms st = (Inr (), st')"
    and "wf_store st" and "d < seq_data_set st"
    and "stored_fm_forms (session st) (feature_models_of (session st) d) = Inr acc"
  shows "stored_fm_forms (session st') (feature_models_of (session st') d) = Inr (acc @ fms)"
  using assms
proof (induction fms arbitrary: st acc)
  case Nil
  then show ?case by simp
next
  case (Cons fmf rest)
  let ?path = "os_path_join (u_temp_folder u) (fmf_uvl_filename fmf)"
  from Cons.prems(1) obtain c sz where
    ok: "calculate_checksum_and_size md5 fs ?path = Inr (c, sz)"
    and rest: "create_feature_models md5 fs u d rest (fm_file fmf c sz (fm_step fmf d st)) = (Inr (), st')"
    by (auto simp: create_feature_models_Cons simp del: create_feature_models.simps split: sum.splits)
  let ?st4 = "fm_file fmf c sz (fm_step fmf d st)"
  let ?new = "\<lparr>fm_id = seq_feature_model st, fm_data_set_id = d, fm_fm_meta_data_id = seq_fm_meta_data st\<rparr>"
  have wf4: "wf_store ?st4"
    using Cons.prems(2,3) by (rule wf_store_fm_step)
  have d4: "d < seq_data_set ?st4"
    using Cons.prems(3) by (simp add: fm_step_def fm_file_def)
  have fms4: "feature_models_of (session ?st4) d = feature_models_of (session st) d @ [?new]"
    by (simp add: feature_models_of_def fm_step_def fm_file_def)
  have olds: "list_all (\<lambda>fm. fm_fm_meta_data_id fm < seq_fm_meta_data st) (feature_models_of (session st) d)"
    using Cons.prems(2) by (auto simp: wf_store_def feature_models_of_def list_all_iff)
  have "stored_fm_forms (session ?st4) (feature_models_of (session st) d) = Inr acc"
    using stored_fm_forms_old [OF Cons.prems(2) olds] Cons.prems(4) by simp
  then have "stored_fm_forms (session ?st4) (feature_models_of (session ?st4) d) = Inr (acc @ [fmf])"
    unfolding fms4 using stored_fm_form_new [OF Cons.prems(2)]
    by (rule stored_fm_forms_append)
  from Cons.IH [OF rest wf4 d4 this] show ?case by simp
qed

subsection \<open>\<^verbatim>\<open>create_from_form\<close>\<close>

lemma dsmetadata_repository_create_id:
  "dsmd_id (fst (dsmetadata_repository_create c kw st)) = seq_ds_meta_data st"
  by (simp add: dsmetadata_repository_create_def Let_def)

lemma create_prefix:
  "dataset_repository_create False (u_id u) (seq_ds_meta_data st)
     (create_ds_authors (seq_ds_meta_data st) (spec_author_list form u)
        (snd (dsmetadata_repository_create repository_commit_default (get_dsmetadata form)
           (logger_info (Creating_dsmetadata (get_dsmetadata form)) st))))
   = (new_dataset u st, base_store form u st)"
  by (auto simp: base_store_def new_dsmetadata_def new_dataset_def logger_info_def
      dsmetadata_repository_create_def repository_commit_default_def finish_write_def
      session_commit_def get_dsmetadata_def create_ds_authors_eq dataset_repository_create_def Let_def
      intro!: store.equality)

lemma seq_ds_meta_data_logger_info:
  "seq_ds_meta_data (logger_info r st) = seq_ds_meta_data st"
  by (simp add: logger_info_def)

lemma create_from_form_try_eq:
  "create_from_form_try md5 fs form u st =
     (case create_feature_models md5 fs u (seq_data_set st) (f_feature_models form) (base_store form u st) of
        (Inl exc, st4) \<Rightarrow> (Inl exc, st4)
      | (Inr _, st4) \<Rightarrow> (Inr (new_dataset u st), session_commit st4))"
proof -
  have d: "ds_id (new_dataset u st) = seq_data_set st"
    by (simp add: new_dataset_def)
  show ?thesis
    unfolding create_from_form_try_def Let_def author_list_spec case_prod_beta
      dsmetadata_repository_create_id seq_ds_meta_data_logger_info create_prefix fst_conv snd_conv d
    by (simp add: case_prod_beta)
qed

lemma create_from_form_Inr:
  assumes "create_from_form md5 fs form u st = (Inr dataset, st')"
  obtains st4 where
    "create_feature_models md5 fs u (seq_data_set st) (f_feature_models form) (base_store form u st)
       = (Inr (), st4)"
    and "dataset = new_dataset u st" and "st' = session_commit st4"
  using assms
  by (auto simp: create_from_form_def create_from_form_try_eq split: prod.splits sum.splits)

lemma create_from_form_Inl:
  assumes "create_from_form md5 fs form u st = (Inl exc, st')"
  obtains st4 where
    "create_feature_models md5 fs u (seq_data_set st) (f_feature_models form) (base_store form u st)
       = (Inl exc, st4)"
    and "st' = session_rollback (logger_info (Exception_creating exc) st4)"
  using assms
  by (auto simp: create_from_form_def create_from_form_try_eq split: prod.splits sum.splits)

lemma wf_store_base:
  assumes "wf_store st"
  shows "wf_store (base_store form u st)"
  using assms
  by (auto simp: wf_store_def base_store_def new_dsmetadata_def new_dataset_def list_all_iff
      fk_below_def less_Suc_eq dest!: author_rows_owner split: option.splits)

lemma create_from_form_authors:
  assumes wf: "wf_store st"
    and run: "create_from_form md5 fs form u st = (Inr dataset, st')"
  shows "ds_authors (committed st') (ds_ds_meta_data_id dataset)
       = author_rows (seq_author st) (Some (seq_ds_meta_data st)) None (spec_author_list form u)"
proof -
  from run obtain st4 where
    loop: "create_feature_models md5 fs u (seq_data_set st) (f_feature_models form) (base_store form u st)
       = (Inr (), st4)"
    and d: "dataset = new_dataset u st" and st': "st' = session_commit st4"
    by (rule create_from_form_Inr)
  have "ds_authors (session st4) (seq_ds_meta_data st)
      = ds_authors (session (base_store form u st)) (seq_ds_meta_data st)"
    using create_feature_models_frame [OF loop] by simp
  also have "\<dots> = author_rows (seq_author st) (Some (seq_ds_meta_data st)) None (spec_author_list form u)"
    using filter_fk_below_ds [OF wf]
    by (simp add: ds_authors_def base_store_def filter_author_rows_ds)
  finally show ?thesis
    by (simp add: d st' session_commit_def new_dataset_def)
qed

text \<open>
  Whatever makes the feature-model loop fail, the outcome of \<^verbatim>\<open>create_from_form\<close> is the
  same: the exception is logged and re-raised, the session is rolled back to the committed
  tables, and these hold the new metadata row, which was committed when it was created.
\<close>

lemma create_from_form_failure:
  assumes "create_from_form md5 fs form u st = (Inl exc, st')"
  shows "committed st' = (session st)\<lparr>t_ds_meta_data :=
            t_ds_meta_data (session st) @ [new_dsmetadata form (seq_ds_meta_data st)]\<rparr>
    \<and> session st' = committed st'
    \<and> log st' = log st @ [Creating_dsmetadata (get_dsmetadata form), Exception_creating exc]"
proof -
  from assms obtain st4 where
    loop: "create_feature_models md5 fs u (seq_data_set st) (f_feature_models form) (base_store form u st)
       = (Inl exc, st4)"
    and st': "st' = session_rollback (logger_info (Exception_creating exc) st4)"
    by (rule create_from_form_Inl)
  from create_feature_models_frame [OF loop]
  have "committed st4 = committed (base_store form u st)" and "log st4 = log (base_store form u st)"
    by simp_all
  then show ?thesis
    by (simp add: st' session_rollback_def logger_info_def base_store_def)
qed

lemma populate_authors_eq:
  "populate_authors as fl =
     fl\<lparr>fl_entries := fl_entries fl @ bound_from (fl_bind fl) (fl_last_index fl) (map author_form as),
        fl_last_index := fl_last_index fl + int (length as)\<rparr>"
  by (induction as arbitrary: fl) (simp_all add: append_entry_def Let_def)

lemma populate_fm_form_stored:
  "populate_fm_form new_fm_form t fm = map_sum id (handed_fm_form new_fm_form) (stored_fm_form t fm)"
  by (simp add: populate_fm_form_def stored_fm_form_def handed_fm_form_def populate_authors_eq
      split: option.splits)

lemma populate_feature_models_stored:
  "populate_feature_models new_fm_form t fms fl =
     (case stored_fm_forms t fms of
        Inl exc \<Rightarrow> Inl exc
      | Inr vs \<Rightarrow>
          Inr (fl\<lparr>fl_entries := fl_entries fl @
                      bound_from (fl_bind fl) (fl_last_index fl) (map (handed_fm_form new_fm_form) vs),
                  fl_last_index := fl_last_index fl + int (length vs)\<rparr>))"
proof (induction fms arbitrary: fl)
  case Nil
  then show ?case by simp
next
  case (Cons fm rest)
  show ?case
  proof (cases "stored_fm_form t fm")
    case (Inl exc)
    then show ?thesis
      by (simp add: populate_fm_form_stored)
  next
    case (Inr v)
    then show ?thesis
      by (cases "stored_fm_forms t rest")
        (simp_all add: populate_fm_form_stored Cons.IH append_entry_def Let_def)
  qed
qed

lemma populate_after_create_eq:
  assumes wf: "wf_store st"
    and run: "create_from_form md5 fs form0 u st = (Inr dataset, st')"
  shows "populate_form_from_dataset new_fm_form (session st') form dataset =
     Inr (form\<lparr>fo_title := f_title form0,
               fo_desc := f_desc form0,
               fo_publication_type := f_publication_type form0,
               fo_publication_doi := f_publication_doi form0,
               fo_dataset_doi := f_dataset_doi form0,
               fo_tags := f_tags form0,
               fo_dataset_anonymous := f_dataset_anonymous form0,
               fo_authors := (fo_authors form)
                 \<lparr>fl_entries := bound_from (fl_bind (fo_authors form)) (fl_last_index (fo_authors form))
                                  (spec_author_list form0 u),
                  fl_last_index := fl_last_index (fo_authors form)
                                     + int (length (spec_author_list form0 u))\<rparr>,
               fo_feature_models := (fo_feature_models form)
                 \<lparr>fl_entries := bound_from (fl_bind (fo_feature_models form))
                                  (fl_last_index (fo_feature_models form))
                                  (map (handed_fm_form new_fm_form) (f_feature_models form0)),
                  fl_last_index := fl_last_index (fo_feature_models form)
                                     + int (length (f_feature_models form0))\<rparr>\<rparr>)
    \<and> committed st' = session st'"
proof -
  from run obtain st4 where
    loop: "create_feature_models md5 fs u (seq_data_set st) (f_feature_models form0) (base_store form0 u st)
       = (Inr (), st4)"
    and d: "dataset = new_dataset u st" and st': "st' = session_commit st4"
    by (rule create_from_form_Inr)
  let ?b = "base_store form0 u st"
  note frame = create_feature_models_frame [OF loop]
  have wfb: "wf_store ?b"
    using wf by (rule wf_store_base)
  have db: "seq_data_set st < seq_data_set ?b"
    by (simp add: base_store_def)
  have "feature_models_of (session ?b) (seq_data_set st) = []"
    using wf by (auto simp: feature_models_of_def base_store_def wf_store_def list_all_iff filter_empty_conv)
  then have "stored_fm_forms (session ?b) (feature_models_of (session ?b) (seq_data_set st)) = Inr []"
    by simp
  from create_feature_models_populate [OF loop wfb db this]
  have fms: "stored_fm_forms (session st4) (feature_models_of (session st4) (seq_data_set st))
      = Inr (f_feature_models form0)"
    by simp
  have "find (\<lambda>m. dsmd_id m = seq_ds_meta_data st) (t_ds_meta_data (session st)) = None"
    using wf by (intro find_None_all) (auto simp: wf_store_def list_all_iff)
  then have md: "ds_meta_data_of (session st4) dataset = Some (new_dsmetadata form0 (seq_ds_meta_data st))"
    using frame
    by (simp add: ds_meta_data_of_def d new_dataset_def base_store_def find_append_eq new_dsmetadata_def)
  have au: "ds_authors (session st4) (seq_ds_meta_data st)
      = author_rows (seq_author st) (Some (seq_ds_meta_data st)) None (spec_author_list form0 u)"
    using frame filter_fk_below_ds [OF wf]
    by (simp add: ds_authors_def base_store_def filter_author_rows_ds)
  have s: "session st' = session st4" and c: "committed st' = session st4"
    by (simp_all add: st' session_commit_def)
  have did: "ds_id dataset = seq_data_set st"
    by (simp add: d new_dataset_def)
  show ?thesis
    unfolding s c
    by (simp add: populate_form_from_dataset_def md populate_feature_models_stored fms au did
        new_dsmetadata_def populate_authors_eq Let_def)
qed

lemma bound_from_length [simp]: "length (bound_from b l ds) = length ds"
  by (induction ds arbitrary: l) simp_all

lemma wf_empty_store: "wf_store empty_store"
  by (simp add: wf_store_def empty_store_def empty_tables_def)

subsection \<open>Evaluating the examples\<close>

lemmas eval_defs =
  create_from_form_def create_from_form_try_def create_feature_models.simps
  create_ds_authors.simps create_fm_authors.simps update_ds_authors.simps
  update_from_form_def update_from_form_try_def
  dsmetadata_repository_create_def author_repository_create_def dataset_repository_create_def
  fmmetadata_repository_create_def feature_model_repository_create_def hubfilerepository_create_def
  dsmetadata_repository_update_def author_repository_delete_by_ds_meta_data_id_def set_dsmetadata_def
  finish_write_def repository_commit_default_def session_commit_def session_rollback_def logger_info_def
  get_dsmetadata_def get_authors_def get_anonymous_authors_def get_fmmetadata_def fm_get_authors_def
  main_author_def calculate_checksum_and_size_def fs_stat_def abs_components_def path_components_def
  is_abs_def os_path_join_def ds_meta_data_of_def ds_authors_def feature_models_of_def
  fm_meta_data_of_def fm_authors_def get_by_id_def author_form_def
  stored_fm_form_def stored_fm_forms.simps populate_form_from_dataset_def populate_fm_form_def
  populate_feature_models.simps populate_authors.simps append_entry_def bound_from.simps
  handed_fm_form_def example_new_fm_form_def example_form_object_def
  empty_tables_def empty_store_def example_user_def example_coauthor_def example_anonymous_author_def
  example_fm_form_def example_form_def example_anonymous_form_def example_md5_def empty_fs_def
  uploaded_fs_def example_tables_def example_dataset_def example_metadata_def
  example_old_author_def example_fm_author_def example_fm_meta_data_def example_feature_model_def
  example_file_def stored_tables_def stored_store_def example_coauthor_form_def Let_def

subsection \<open>Atomicity of creation\<close>

text \<open>
  Claim C1. A failing \<^verbatim>\<open>create_from_form\<close> should leave no MetaData, Author, FeatureModel
  or File row of the call visible. On the submission \<open>example_form\<close>, whose uploaded file
  is missing from the user's temporary folder, the call re-raises the
  \<^verbatim>\<open>FileNotFoundError\<close> unchanged, logs it last and rolls the session back, and no Author,
  FeatureModel or File row is visible afterwards; but the MetaData row, created at line 153
  without \<^verbatim>\<open>commit=False\<close>, was committed before the failure and is still visible in a
  store that held none.
\<close>

theorem create_from_form_failure_keeps_metadata:
  "fst (create_from_form example_md5 empty_fs example_form example_user empty_store)
      = Inl (FileNotFoundError ''/tmp/user_3/model.uvl'')
   \<and> map dsmd_title (t_ds_meta_data (committed (snd
         (create_from_form example_md5 empty_fs example_form example_user empty_store)))) = [''T'']
   \<and> t_author (committed (snd
         (create_from_form example_md5 empty_fs example_form example_user empty_store))) = []
   \<and> t_feature_model (committed (snd
         (create_from_form example_md5 empty_fs example_form example_user empty_store))) = []
   \<and> t_file (committed (snd
         (create_from_form example_md5 empty_fs example_form example_user empty_store))) = []
   \<and> session (snd (create_from_form example_md5 empty_fs example_form example_user empty_store))
      = committed (snd (create_from_form example_md5 empty_fs example_form example_user empty_store))
   \<and> last (log (snd (create_from_form example_md5 empty_fs example_form example_user empty_store)))
      = Exception_creating (FileNotFoundError ''/tmp/user_3/model.uvl'')
   \<and> t_ds_meta_data (committed empty_store) = []"
  by (simp add: eval_defs)

subsection \<open>Author resolution\<close>

text \<open>
  Claim C2. After a successful \<^verbatim>\<open>create_from_form\<close> on a store with integrity, and after
  a successful \<^verbatim>\<open>update_from_form\<close>, the author rows persisted for the dataset's metadata
  are, in order, the resolved list: the form's anonymous authors when the form is
  anonymous, else its co-authors when it has any, else the single entry derived from the
  current user's profile.
\<close>

theorem author_resolution:
  "(wf_store st \<and> create_from_form md5 fs form current_user st = (Inr created, st1) \<longrightarrow>
      map author_form (ds_authors (committed st1) (ds_ds_meta_data_id created))
        = spec_author_list form current_user)
   \<and> (update_from_form form current_user dataset st = (Inr reloaded, st2) \<longrightarrow>
      map author_form (ds_authors (committed st2) (ds_ds_meta_data_id dataset))
        = spec_author_list form current_user)"
proof (intro conjI impI)
  assume "wf_store st \<and> create_from_form md5 fs form current_user st = (Inr created, st1)"
  then have wf: "wf_store st"
    and run: "create_from_form md5 fs form current_user st = (Inr created, st1)"
    by simp_all
  show "map author_form (ds_authors (committed st1) (ds_ds_meta_data_id created))
        = spec_author_list form current_user"
    by (simp add: create_from_form_authors [OF wf run])
next
  assume "update_from_form form current_user dataset st = (Inr reloaded, st2)"
  from update_from_form_Inr [OF this]
  show "map author_form (ds_authors (committed st2) (ds_ds_meta_data_id dataset))
        = spec_author_list form current_user"
    by (simp add: ds_authors_updated)
qed

theorem author_resolution_witness:
  "wf_store empty_store
   \<and> fst (create_from_form example_md5 uploaded_fs example_form example_user empty_store)
       = Inr \<lparr>ds_id = 0, ds_user_id = 3, ds_ds_meta_data_id = 0\<rparr>
   \<and> map author_form (ds_authors (committed (snd
        (create_from_form example_md5 uploaded_fs example_form example_user empty_store))) 0)
       = [\<lparr>ad_name = ''Doe, Jane'', ad_affiliation = ''US'', ad_orcid = ''0000-0001''\<rparr>]
   \<and> fst (update_from_form example_anonymous_form example_user example_dataset stored_store)
       = Inr (Some example_dataset)
   \<and> map author_form (ds_authors (committed (snd
        (update_from_form example_anonymous_form example_user example_dataset stored_store))) 1)
       = [example_anonymous_author]"
proof -
  let ?c = "create_from_form example_md5 uploaded_fs example_form example_user empty_store"
  let ?d = "\<lparr>ds_id = 0, ds_user_id = 3, ds_ds_meta_data_id = 0\<rparr>"
  let ?u = "update_from_form example_anonymous_form example_user example_dataset stored_store"
  have c: "fst ?c = Inr ?d"
    by (simp add: eval_defs)
  then have crun: "?c = (Inr ?d, snd ?c)"
    by (metis prod.collapse)
  have u: "fst ?u = Inr (Some example_dataset)"
    by (simp add: eval_defs)
  then have urun: "?u = (Inr (Some example_dataset), snd ?u)"
    by (metis prod.collapse)
  have wf: "wf_store empty_store"
    by (simp add: wf_store_def empty_store_def empty_tables_def)
  have s1: "spec_author_list example_form example_user
      = [\<lparr>ad_name = ''Doe, Jane'', ad_affiliation = ''US'', ad_orcid = ''0000-0001''\<rparr>]"
    by (simp add: spec_author_list_def example_form_def example_user_def)
  have s2: "spec_author_list example_anonymous_form example_user = [example_anonymous_author]"
    by (simp add: spec_author_list_def example_anonymous_form_def)
  have ids: "ds_ds_meta_data_id ?d = 0" "ds_ds_meta_data_id example_dataset = 1"
    by (simp_all add: example_dataset_def)
  note t1 = author_resolution [where st = empty_store and ?md5.0 = example_md5 and fs = uploaded_fs
      and form = example_form and current_user = example_user and created = ?d and ?st1.0 = "snd ?c"]
  note t2 = author_resolution [where st = stored_store and form = example_anonymous_form
      and current_user = example_user and dataset = example_dataset
      and reloaded = "Some example_dataset" and ?st2.0 = "snd ?u"]
  from t1 wf crun have a1: "map author_form (ds_authors (committed (snd ?c)) (ds_ds_meta_data_id ?d))
      = spec_author_list example_form example_user"
    by blast
  from t2 urun have a2: "map author_form (ds_authors (committed (snd ?u)) (ds_ds_meta_data_id example_dataset))
      = spec_author_list example_anonymous_form example_user"
    by blast
  show ?thesis
    using wf c u a1 a2 s1 s2 ids by simp
qed

subsection \<open>Update replaces the author list\<close>

text \<open>
  Claim C3. After two successive successful calls of \<^verbatim>\<open>update_from_form\<close> on a dataset,
  the author rows persisted for its metadata are exactly the second call's resolved list, in
  content and in number; nothing of the first call's list or of the earlier rows remains.
\<close>

theorem update_replaces_authors:
  assumes "update_from_form form1 user1 dataset st = (Inr r1, st1)"
    and "update_from_form form2 user2 dataset st1 = (Inr r2, st2)"
  shows "map author_form (ds_authors (committed st1) (ds_ds_meta_data_id dataset))
           = spec_author_list form1 user1
    \<and> map author_form (ds_authors (committed st2) (ds_ds_meta_data_id dataset))
           = spec_author_list form2 user2
    \<and> length (ds_authors (committed st2) (ds_ds_meta_data_id dataset))
           = length (spec_author_list form2 user2)"
  using update_from_form_Inr [OF assms(1)] update_from_form_Inr [OF assms(2)]
  by (simp add: ds_authors_updated)

theorem update_replaces_authors_witness:
  "fst (update_from_form example_anonymous_form example_user example_dataset stored_store)
       = Inr (Some example_dataset)
   \<and> fst (update_from_form example_coauthor_form example_user example_dataset
        (snd (update_from_form example_anonymous_form example_user example_dataset stored_store)))
       = Inr (Some example_dataset)
   \<and> map author_form (ds_authors (committed stored_store) 1)
       = [\<lparr>ad_name = ''Old, Author'', ad_affiliation = ''US'', ad_orcid = []\<rparr>]
   \<and> map author_form (ds_authors (committed (snd
        (update_from_form example_coauthor_form example_user example_dataset
          (snd (update_from_form example_anonymous_form example_user example_dataset stored_store))))) 1)
       = [example_coauthor]"
proof -
  let ?u1 = "update_from_form example_anonymous_form example_user example_dataset stored_store"
  let ?u2 = "update_from_form example_coauthor_form example_user example_dataset (snd ?u1)"
  have u1: "fst ?u1 = Inr (Some example_dataset)"
    by (simp add: eval_defs)
  then have run1: "?u1 = (Inr (Some example_dataset), snd ?u1)"
    by (metis prod.collapse)
  have u2: "fst ?u2 = Inr (Some example_dataset)"
    by (simp add: eval_defs)
  then have run2: "?u2 = (Inr (Some example_dataset), snd ?u2)"
    by (metis prod.collapse)
  have old: "map author_form (ds_authors (committed stored_store) 1)
       = [\<lparr>ad_name = ''Old, Author'', ad_affiliation = ''US'', ad_orcid = []\<rparr>]"
    by (simp add: eval_defs)
  have s: "spec_author_list example_coauthor_form example_user = [example_coauthor]"
    by (simp add: spec_author_list_def example_coauthor_form_def example_form_def)
  have i: "ds_ds_meta_data_id example_dataset = 1"
    by (simp add: example_dataset_def)
  from update_replaces_authors [OF run1 run2]
  show ?thesis
    using u1 u2 old s i by simp
qed

subsection \<open>Update leaves the feature models alone\<close>

text \<open>
  Claim C8. A call of \<^verbatim>\<open>update_from_form\<close> that starts with no pending writes, on a store
  where every author has a single owner, leaves the FeatureModel rows, their metadata rows,
  their File rows and their authors as they were, whether the call succeeds or raises; so
  are the dataset rows, the other metadata rows and the authors of other metadata. Only the
  dataset's own metadata row and its author list can differ.
\<close>

theorem update_keeps_feature_models:
  assumes clean: "session st = committed st"
    and owners: "list_all single_owner (t_author (session st))"
    and run: "update_from_form form current_user dataset st = (r, st')"
  shows "t_feature_model (committed st') = t_feature_model (committed st)
    \<and> t_fm_meta_data (committed st') = t_fm_meta_data (committed st)
    \<and> t_file (committed st') = t_file (committed st)
    \<and> (\<forall>i. fm_authors (committed st') i = fm_authors (committed st) i)
    \<and> t_data_set (committed st') = t_data_set (committed st)
    \<and> filter (\<lambda>m. dsmd_id m \<noteq> ds_ds_meta_data_id dataset) (t_ds_meta_data (committed st'))
        = filter (\<lambda>m. dsmd_id m \<noteq> ds_ds_meta_data_id dataset) (t_ds_meta_data (committed st))
    \<and> filter (\<lambda>a. au_ds_meta_data_id a \<noteq> Some (ds_ds_meta_data_id dataset)) (t_author (committed st'))
        = filter (\<lambda>a. au_ds_meta_data_id a \<noteq> Some (ds_ds_meta_data_id dataset)) (t_author (committed st))
    \<and> session st' = committed st'"
proof (cases "ds_meta_data_of (session st) dataset")
  case None
  with run have "st' = session_rollback (logger_info (Exception_updating (AttributeError ''id''))
      (logger_info (Updating_dsmetadata (get_dsmetadata form)) st))"
    by (auto simp: update_from_form_def update_from_form_try_None)
  then show ?thesis
    by (simp add: session_rollback_def logger_info_def)
next
  case (Some m)
  with run have c: "committed st' = updated_tables form current_user dataset st"
    and s: "session st' = updated_tables form current_user dataset st"
    by (auto simp: update_from_form_def update_from_form_try_Some)
  have rows: "filter (\<lambda>a. au_ds_meta_data_id a \<noteq> Some (ds_ds_meta_data_id dataset))
        (author_rows n (Some (ds_ds_meta_data_id dataset)) None as) = []" for n as
    by (induction as arbitrary: n) simp_all
  have metas: "filter (\<lambda>m. dsmd_id m \<noteq> k) (map (\<lambda>m. if dsmd_id m = k then set_dsmetadata kw m else m) xs)
      = filter (\<lambda>m. dsmd_id m \<noteq> k) xs" for k kw xs
    by (induction xs) simp_all
  show ?thesis
    unfolding c s
    using clean [symmetric] filter_single_owner [OF owners]
    by (simp add: updated_tables_def fm_authors_def filter_author_rows_fm rows metas)
qed

theorem update_keeps_feature_models_witness:
  "session stored_store = committed stored_store
   \<and> list_all single_owner (t_author (session stored_store))
   \<and> fst (update_from_form example_coauthor_form example_user example_dataset stored_store)
       = Inr (Some example_dataset)
   \<and> t_feature_model (committed (snd
        (update_from_form example_coauthor_form example_user example_dataset stored_store)))
       = [example_feature_model]
   \<and> t_fm_meta_data (committed (snd
        (update_from_form example_coauthor_form example_user example_dataset stored_store)))
       = [example_fm_meta_data]
   \<and> t_file (committed (snd
        (update_from_form example_coauthor_form example_user example_dataset stored_store)))
       = [example_file]
   \<and> fm_authors (committed (snd
        (update_from_form example_coauthor_form example_user example_dataset stored_store))) 0
       = [example_fm_author]"
proof -
  let ?u = "update_from_form example_coauthor_form example_user example_dataset stored_store"
  have clean: "session stored_store = committed stored_store"
    by (simp add: stored_store_def)
  have owners: "list_all single_owner (t_author (session stored_store))"
    by (simp add: stored_store_def stored_tables_def single_owner_def example_old_author_def
        example_fm_author_def)
  have u: "fst ?u = Inr (Some example_dataset)"
    by (simp add: eval_defs)
  have run: "?u = (fst ?u, snd ?u)"
    by simp
  have before: "t_feature_model (committed stored_store) = [example_feature_model]"
    "t_fm_meta_data (committed stored_store) = [example_fm_meta_data]"
    "t_file (committed stored_store) = [example_file]"
    "fm_authors (committed stored_store) 0 = [example_fm_author]"
    by (simp_all add: stored_store_def stored_tables_def fm_authors_def example_old_author_def
        example_fm_author_def)
  from update_keeps_feature_models [OF clean owners run]
  show ?thesis
    using clean owners u before by simp
qed

subsection \<open>Populating a form from a created dataset\<close>

text \<open>
  Claim C5, as amended. After a successful \<^verbatim>\<open>create_from_form\<close> of \<open>form0\<close> on a store
  with integrity, \<^verbatim>\<open>populate_form_from_dataset\<close> on the returned dataset succeeds. It
  assigns the title, description, tags, DOI fields and anonymity flag of \<open>form0\<close>. To the
  form's author list it hands, in order, one author form per author of the resolved
  author list, holding that author's name, affiliation and ORCID; the resolved list is
  the author list of \<open>form0\<close> when \<open>form0\<close> is not anonymous and names at least one
  co-author. To the feature-model list it hands, in the original order, one feature-model
  form per feature model of \<open>form0\<close>, holding its file name, title, description, DOI,
  tags and version, and to whose author list it has handed one author form per author of
  that feature model. What the field lists make of the forms handed to them, \<open>fl_bind\<close>, is
  not part of the statement.
\<close>

theorem populate_after_create:
  assumes "wf_store st"
    and "create_from_form md5 fs form0 current_user st = (Inr dataset, st')"
  shows "\<exists>form'. populate_form_from_dataset new_fm_form (session st') form dataset = Inr form'
      \<and> committed st' = session st'
      \<and> fo_title form' = f_title form0
      \<and> fo_desc form' = f_desc form0
      \<and> fo_tags form' = f_tags form0
      \<and> fo_publication_doi form' = f_publication_doi form0
      \<and> fo_dataset_doi form' = f_dataset_doi form0
      \<and> fo_dataset_anonymous form' = f_dataset_anonymous form0
      \<and> fl_entries (fo_authors form')
          = bound_from (fl_bind (fo_authors form)) (fl_last_index (fo_authors form))
              (spec_author_list form0 current_user)
      \<and> (\<not> f_dataset_anonymous form0 \<and> f_authors form0 \<noteq> [] \<longrightarrow>
            spec_author_list form0 current_user = f_authors form0)
      \<and> (\<exists>fm_forms.
            fl_entries (fo_feature_models form')
              = bound_from (fl_bind (fo_feature_models form)) (fl_last_index (fo_feature_models form))
                  fm_forms
            \<and> list_all2 (\<lambda>fm_form fmf.
                    fmo_uvl_filename fm_form = fmf_uvl_filename fmf
                  \<and> fmo_title fm_form = fmf_title fmf
                  \<and> fmo_desc fm_form = fmf_desc fmf
                  \<and> fmo_publication_doi fm_form = fmf_publication_doi fmf
                  \<and> fmo_tags fm_form = fmf_tags fmf
                  \<and> fmo_version fm_form = fmf_version fmf
                  \<and> fl_entries (fmo_authors fm_form)
                      = bound_from (fl_bind (fmo_authors new_fm_form))
                          (fl_last_index (fmo_authors new_fm_form)) (fmf_authors fmf))
                fm_forms (f_feature_models form0))"
proof -
  let ?fm_forms = "map (handed_fm_form new_fm_form) (f_feature_models form0)"
  have fields: "list_all2 (\<lambda>fm_form fmf.
                    fmo_uvl_filename fm_form = fmf_uvl_filename fmf
                  \<and> fmo_title fm_form = fmf_title fmf
                  \<and> fmo_desc fm_form = fmf_desc fmf
                  \<and> fmo_publication_doi fm_form = fmf_publication_doi fmf
                  \<and> fmo_tags fm_form = fmf_tags fmf
                  \<and> fmo_version fm_form = fmf_version fmf
                  \<and> fl_entries (fmo_authors fm_form)
                      = bound_from (fl_bind (fmo_authors new_fm_form))
                          (fl_last_index (fmo_authors new_fm_form)) (fmf_authors fmf))
                ?fm_forms (f_feature_models form0)"
    by (simp add: list_all2_map1 list_all2_same handed_fm_form_def)
  have resolved: "\<not> f_dataset_anonymous form0 \<and> f_authors form0 \<noteq> [] \<longrightarrow>
      spec_author_list form0 current_user = f_authors form0"
    by (simp add: spec_author_list_def)
  from populate_after_create_eq [OF assms, of new_fm_form form] fields resolved
  show ?thesis
    by auto
qed

text \<open>
  The round trip as claimed fails on the authors: \<open>example_form\<close> names no co-author and
  is not anonymous, the dataset is created with the submitter as its author, and the form
  populated from it has an author entry, made from that author, where \<open>example_form\<close> has
  none.
\<close>

theorem populate_create_round_trip_counterexample:
  "fst (create_from_form example_md5 uploaded_fs example_form example_user empty_store)
      = Inr \<lparr>ds_id = 0, ds_user_id = 3, ds_ds_meta_data_id = 0\<rparr>
   \<and> map_sum id (\<lambda>form. fl_entries (fo_authors form))
        (populate_form_from_dataset example_new_fm_form
           (session (snd (create_from_form example_md5 uploaded_fs example_form example_user empty_store)))
           example_form_object \<lparr>ds_id = 0, ds_user_id = 3, ds_ds_meta_data_id = 0\<rparr>)
      = Inr [(0, \<lparr>ad_name = ''Doe, Jane'', ad_affiliation = ''US'', ad_orcid = ''0000-0001''\<rparr>)]
   \<and> f_authors example_form = []"
  by (simp add: eval_defs)

theorem populate_after_create_witness:
  "wf_store empty_store
   \<and> fst (create_from_form example_md5 uploaded_fs example_anonymous_form example_user empty_store)
      = Inr \<lparr>ds_id = 0, ds_user_id = 3, ds_ds_meta_data_id = 0\<rparr>
   \<and> (\<exists>form'. populate_form_from_dataset example_new_fm_form
          (session (snd (create_from_form example_md5 uploaded_fs example_anonymous_form example_user empty_store)))
          example_form_object \<lparr>ds_id = 0, ds_user_id = 3, ds_ds_meta_data_id = 0\<rparr> = Inr form'
        \<and> fo_title form' = ''T''
        \<and> fo_dataset_anonymous form' = True
        \<and> fl_entries (fo_authors form') = [(0, example_anonymous_author)]
        \<and> map fst (fl_entries (fo_feature_models form')) = [1])"
proof -
  let ?r = "create_from_form example_md5 uploaded_fs example_anonymous_form example_user empty_store"
  let ?d = "\<lparr>ds_id = 0, ds_user_id = 3, ds_ds_meta_data_id = 0\<rparr>"
  have d: "fst ?r = Inr ?d"
    by (simp add: eval_defs)
  then have run: "?r = (Inr ?d, snd ?r)"
    by (metis prod.collapse)
  have spec: "spec_author_list example_anonymous_form example_user = [example_anonymous_author]"
    by (simp add: spec_author_list_def example_anonymous_form_def)
  have fields: "f_title example_anonymous_form = ''T''" "f_dataset_anonymous example_anonymous_form = True"
    "length (f_feature_models example_anonymous_form) = 1"
    by (simp_all add: example_anonymous_form_def example_form_def)
  have lists: "fl_bind (fo_authors example_form_object) = Pair"
    "fl_last_index (fo_authors example_form_object) = - 1"
    "fl_bind (fo_feature_models example_form_object) = Pair"
    "fl_last_index (fo_feature_models example_form_object) = 0"
    by (simp_all add: example_form_object_def)
  from populate_after_create [OF wf_empty_store run, of example_new_fm_form example_form_object]
  obtain form' fm_forms where
    p: "populate_form_from_dataset example_new_fm_form (session (snd ?r)) example_form_object ?d = Inr form'"
    and t: "fo_title form' = f_title example_anonymous_form"
    and a: "fo_dataset_anonymous form' = f_dataset_anonymous example_anonymous_form"
    and au: "fl_entries (fo_authors form')
          = bound_from (fl_bind (fo_authors example_form_object))
              (fl_last_index (fo_authors example_form_object))
              (spec_author_list example_anonymous_form example_user)"
    and fm: "fl_entries (fo_feature_models form')
              = bound_from (fl_bind (fo_feature_models example_form_object))
                  (fl_last_index (fo_feature_models example_form_object)) fm_forms"
    and l: "list_all2 (\<lambda>fm_form fmf.
                    fmo_uvl_filename fm_form = fmf_uvl_filename fmf
                  \<and> fmo_title fm_form = fmf_title fmf
                  \<and> fmo_desc fm_form = fmf_desc fmf
                  \<and> fmo_publication_doi fm_form = fmf_publication_doi fmf
                  \<and> fmo_tags fm_form = fmf_tags fmf
                  \<and> fmo_version fm_form = fmf_version fmf
                  \<and> fl_entries (fmo_authors fm_form)
                      = bound_from (fl_bind (fmo_authors example_new_fm_form))
                          (fl_last_index (fmo_authors example_new_fm_form)) (fmf_authors fmf))
                fm_forms (f_feature_models example_anonymous_form)"
    by (elim exE conjE) (rule that)
  from l fields(3) obtain x where x: "fm_forms = [x]"
    by (cases fm_forms) (auto dest: list_all2_lengthD)
  have "fo_title form' = ''T''" "fo_dataset_anonymous form' = True"
    "fl_entries (fo_authors form') = [(0, example_anonymous_author)]"
    "map fst (fl_entries (fo_feature_models form')) = [1]"
    using t a au fm by (simp_all add: fields spec lists x)
  with p wf_empty_store d show ?thesis
    by simp
qed

subsection \<open>The trackers\<close>










subsection \<open>Splitting and joining paths\<close>

lemma split_sep_not_Nil [simp]: "split_sep a \<noteq> []"
  by (induction a) (auto split: list.splits)

lemma split_sep_append: "split_sep (a @ CHR ''/'' # b) = split_sep a @ split_sep b"
proof (induction a)
  case Nil
  then show ?case by simp
next
  case (Cons c a)
  obtain p ps where "split_sep a = p # ps"
    by (cases "split_sep a") simp_all
  with Cons show ?case by simp
qed

lemma split_sep_no_slash: "CHR ''/'' \<notin> set a \<Longrightarrow> split_sep a = [a]"
  by (induction a) auto

lemma clean_nameD:
  assumes "clean_name k"
  shows "k \<noteq> []" "CHR ''/'' \<notin> set k" "k \<noteq> ''.''" "k \<noteq> ''..''" "hd k \<noteq> CHR ''/''" "last k \<noteq> CHR ''/''"
  using assms by (auto simp: clean_name_def dest: hd_in_set last_in_set)

lemma path_components_Nil [simp]: "path_components [] = []"
  by (simp add: path_components_def)

lemma path_components_slash: "path_components (a @ ''/'') = path_components a"
  by (simp add: path_components_def split_sep_append)

lemma path_components_sep:
  "clean_name b \<Longrightarrow> path_components (a @ CHR ''/'' # b) = path_components a @ [b]"
  by (simp add: path_components_def split_sep_append split_sep_no_slash clean_nameD)

lemma path_components_clean: "clean_name b \<Longrightarrow> path_components b = [b]"
  by (simp add: path_components_def split_sep_no_slash clean_nameD)

lemma path_components_join:
  assumes "clean_name b"
  shows "path_components (os_path_join a b) = path_components a @ [b]"
proof -
  note b = clean_nameD [OF assms]
  consider (empty) "a = []" | (slash) "a \<noteq> []" "last a = CHR ''/''" | (plain) "a \<noteq> []" "last a \<noteq> CHR ''/''"
    by blast
  then show ?thesis
  proof cases
    case empty
    then show ?thesis
      using b assms by (simp add: os_path_join_def path_components_clean)
  next
    case slash
    then obtain a' where a: "a = a' @ ''/''"
      by (metis append_butlast_last_id)
    have "os_path_join a b = a' @ CHR ''/'' # b"
      using b slash by (simp add: os_path_join_def a)
    then show ?thesis
      using assms by (simp add: path_components_sep a path_components_slash)
  next
    case plain
    then have "os_path_join a b = a @ CHR ''/'' # b"
      using b by (simp add: os_path_join_def)
    then show ?thesis
      using assms by (simp add: path_components_sep)
  qed
qed

lemma is_abs_join: "clean_name b \<Longrightarrow> is_abs (os_path_join a b) = is_abs a"
  by (cases a) (auto simp: is_abs_def os_path_join_def dest: clean_nameD)

lemma normpath_append: "normpath acc (xs @ ys) = normpath (normpath acc xs) ys"
  by (induction xs arbitrary: acc) simp_all

lemma normpath_clean: "list_all clean_name xs \<Longrightarrow> normpath acc xs = acc @ xs"
  by (induction xs arbitrary: acc) (auto dest: clean_nameD)

lemma abs_components_join:
  assumes "clean_name b"
  shows "abs_components fs (os_path_join a b) = abs_components fs a @ [b]"
  using assms clean_nameD(4) [OF assms]
  by (simp add: abs_components_def is_abs_join path_components_join normpath_append)

lemma digit_char_digit: "d < 10 \<Longrightarrow> digit_char d \<in> set ''0123456789''"
  unfolding digit_char_def by (rule nth_mem) simp

lemma str_nat_digits: "set (str_nat n) \<subseteq> set ''0123456789''"
proof (induction n rule: str_nat.induct)
  case (1 n)
  show ?case
  proof (cases "n < 10")
    case True
    then show ?thesis
      using digit_char_digit [of n] by (subst str_nat.simps) simp
  next
    case False
    have "n mod 10 < 10" by simp
    from digit_char_digit [OF this] "1" [OF False] False show ?thesis
      by (subst str_nat.simps) simp
  qed
qed

lemma str_nat_not_Nil: "str_nat n \<noteq> []"
  by (subst str_nat.simps) simp

lemma str_nat_no_slash: "CHR ''/'' \<notin> set (str_nat n)" and str_nat_no_dot: "CHR ''.'' \<notin> set (str_nat n)"
  using str_nat_digits [of n] by auto

lemma clean_user: "clean_name (''user_'' @ str_nat n)"
  and clean_dataset: "clean_name (''dataset_'' @ str_nat n)"
  and clean_zip: "clean_name (''dataset_'' @ str_nat n @ ''.zip'')"
  using str_nat_no_slash [of n] by (simp_all add: clean_name_def)

lemma file_path_components:
  "path_components (''uploads/user_'' @ str_nat u @ ''/dataset_'' @ str_nat d @ ''/'')
     = [''uploads'', ''user_'' @ str_nat u, ''dataset_'' @ str_nat d]"
proof -
  have "''uploads/user_'' @ str_nat u @ ''/dataset_'' @ str_nat d @ ''/''
      = ((''uploads'' @ CHR ''/'' # (''user_'' @ str_nat u)) @ CHR ''/'' # (''dataset_'' @ str_nat d)) @ ''/''"
    by simp
  then show ?thesis
    unfolding path_components_slash
    by (simp only: path_components_slash path_components_sep [OF clean_user]
        path_components_sep [OF clean_dataset]) (simp add: path_components_clean clean_name_def)
qed

lemma file_path_abs:
  "abs_components fs (''uploads/user_'' @ str_nat u @ ''/dataset_'' @ str_nat d @ ''/'')
     = fs_cwd fs @ [''uploads'', ''user_'' @ str_nat u, ''dataset_'' @ str_nat d]"
proof -
  have rel: "\<not> is_abs (''uploads/user_'' @ str_nat u @ ''/dataset_'' @ str_nat d @ ''/'')"
    by (simp add: is_abs_def)
  have "list_all clean_name [''uploads'', ''user_'' @ str_nat u, ''dataset_'' @ str_nat d]"
    using clean_user clean_dataset by (simp add: clean_name_def)
  then show ?thesis
    unfolding abs_components_def file_path_components using rel
    by (simp only: if_False normpath_clean)
qed

subsection \<open>Relative paths and archive names\<close>

lemma common_prefix_append [simp]: "common_prefix xs (xs @ ys) = xs"
  by (induction xs) simp_all

lemma foldl_join_clean:
  assumes "list_all clean_name cs" "a \<noteq> []" "last a \<noteq> CHR ''/''"
  shows "foldl os_path_join a cs = foldl (\<lambda>a b. a @ ''/'' @ b) a cs"
  using assms
proof (induction cs arbitrary: a)
  case Nil
  then show ?case by simp
next
  case (Cons c cs)
  then have c: "clean_name c" and cs: "list_all clean_name cs"
    by simp_all
  note cd = clean_nameD [OF c]
  have j: "os_path_join a c = a @ ''/'' @ c"
    using Cons.prems(2,3) cd by (simp add: os_path_join_def)
  have "a @ ''/'' @ c \<noteq> []" "last (a @ ''/'' @ c) \<noteq> CHR ''/''"
    using cd by simp_all
  from Cons.IH [OF cs this] show ?case
    by (simp add: j)
qed

lemma relpath_below:
  assumes "abs_components fs start = U" "abs_components fs path = U @ rel"
    and "rel \<noteq> []" "list_all clean_name rel"
  shows "os_path_relpath fs path start = slash_join rel"
proof -
  obtain r rs where rel: "rel = r # rs"
    using assms(3) by (cases rel) simp_all
  with assms(4) have r: "clean_name r" and rs: "list_all clean_name rs"
    by simp_all
  have "foldl os_path_join r rs = foldl (\<lambda>a b. a @ ''/'' @ b) r rs"
    using rs clean_nameD(1,6) [OF r] by (rule foldl_join_clean)
  then show ?thesis
    by (simp add: os_path_relpath_def assms(1,2) rel slash_join_def Let_def)
qed

lemma slash_join_hd:
  assumes "rel \<noteq> []" "list_all clean_name rel"
  shows "slash_join rel \<noteq> [] \<and> hd (slash_join rel) \<noteq> CHR ''/''"
proof -
  have *: "foldl (\<lambda>a b. a @ ''/'' @ b) a cs \<noteq> [] \<and> hd (foldl (\<lambda>a b. a @ ''/'' @ b) a cs) = hd a"
    if "a \<noteq> []" for a cs
    using that by (induction cs arbitrary: a) simp_all
  obtain r rs where rel: "rel = r # rs"
    using assms(1) by (cases rel) simp_all
  with assms(2) have r: "clean_name r"
    by simp
  note rd = clean_nameD [OF r]
  from * [OF rd(1), of rs] rd show ?thesis
    by (simp add: slash_join_def rel)
qed

lemma arcname_join:
  assumes "rel \<noteq> []" "list_all clean_name rel" "root \<noteq> []" "last root \<noteq> CHR ''/''"
  shows "os_path_join root (slash_join rel) = root @ ''/'' @ slash_join rel"
  using slash_join_hd [OF assms(1,2)] assms(3,4) by (simp add: os_path_join_def)

lemma last_split_sep_sep:
  "CHR ''/'' \<notin> set b \<Longrightarrow> last (split_sep (a @ CHR ''/'' # b)) = b"
  by (simp add: split_sep_append split_sep_no_slash)

lemma zip_root_folder:
  assumes "temp_dir \<noteq> []"
  shows "os_path_basename
           (take (length (os_path_join temp_dir (''dataset_'' @ str_nat d @ ''.zip'')) - 4)
              (os_path_join temp_dir (''dataset_'' @ str_nat d @ ''.zip'')))
         = ''dataset_'' @ str_nat d"
proof -
  let ?name = "''dataset_'' @ str_nat d"
  have ns: "CHR ''/'' \<notin> set ?name"
    using str_nat_no_slash [of d] by simp
  obtain q where q: "os_path_join temp_dir (?name @ ''.zip'') = q @ CHR ''/'' # ?name @ ''.zip''"
  proof (cases "last temp_dir = CHR ''/''")
    case True
    with assms have "temp_dir = butlast temp_dir @ ''/''"
      by (metis append_butlast_last_id)
    then have "os_path_join temp_dir (?name @ ''.zip'') = butlast temp_dir @ CHR ''/'' # ?name @ ''.zip''"
      using True assms by (simp add: os_path_join_def)
    then show ?thesis by (rule that)
  next
    case False
    with assms have "os_path_join temp_dir (?name @ ''.zip'') = temp_dir @ CHR ''/'' # ?name @ ''.zip''"
      by (simp add: os_path_join_def)
    then show ?thesis by (rule that)
  qed
  have strip: "take (length (x @ ''.zip'') - 4) (x @ ''.zip'') = x" for x :: string
    by simp
  have "q @ CHR ''/'' # ?name @ ''.zip'' = (q @ CHR ''/'' # ?name) @ ''.zip''"
    by simp
  then have "take (length (os_path_join temp_dir (?name @ ''.zip'')) - 4)
      (os_path_join temp_dir (?name @ ''.zip'')) = q @ CHR ''/'' # ?name"
    unfolding q by (simp only: strip)
  then show ?thesis
    using ns by (simp add: os_path_basename_def last_split_sep_sep del: append.simps)
qed

lemma zip_path_abs:
  "abs_components fs (os_path_join temp_dir (''dataset_'' @ str_nat d @ ''.zip''))
     = abs_components fs temp_dir @ [''dataset_'' @ str_nat d @ ''.zip'']"
  by (rule abs_components_join) (rule clean_zip)

subsection \<open>Looking up and updating the directory tree\<close>

lemma lookup_append:
  "lookup_node n (p @ q) = (case lookup_node n p of Node m \<Rightarrow> lookup_node m q | e \<Rightarrow> e)"
  and lookup_entries_append:
  "lookup_entries es c (p @ q) = (case lookup_entries es c p of Node m \<Rightarrow> lookup_node m q | e \<Rightarrow> e)"
proof (induction n p and es c p rule: lookup_node_lookup_entries.induct)
  case (2 b c cs)
  then show ?case by simp
qed (simp_all split: stat.splits)

lemma lookup_entries_member:
  assumes "distinct (map fst es)" "(k, n) \<in> set es"
  shows "lookup_entries es k cs = lookup_node n cs"
  using assms by (induction es) (auto simp: rev_image_eqI)

lemma lookup_entries_other_append:
  "x \<noteq> k \<Longrightarrow> lookup_entries (es @ [(k, v)]) x xs = lookup_entries es x xs"
  by (induction es) auto

lemma lookup_entries_other_map:
  "x \<noteq> k \<Longrightarrow> lookup_entries (map (\<lambda>e. if fst e = k then (k, v) else e) es) x xs = lookup_entries es x xs"
  by (induction es) auto

lemma lookup_set_entry_other:
  "x \<noteq> k \<Longrightarrow> lookup_node (set_entry k v n) (x # xs) = lookup_node n (x # xs)"
  by (cases n) (simp_all add: lookup_entries_other_append lookup_entries_other_map)

lemma lookup_entries_new_append:
  "k \<notin> set (map fst es) \<Longrightarrow> lookup_entries (es @ [(k, v)]) k xs = lookup_node v xs"
  by (induction es) auto

lemma lookup_entries_new_map:
  "k \<in> set (map fst es) \<Longrightarrow>
     lookup_entries (map (\<lambda>e. if fst e = k then (k, v) else e) es) k xs = lookup_node v xs"
  by (induction es) (auto simp: rev_image_eqI)

lemma lookup_set_entry_same:
  "lookup_node (set_entry k v (Dir es)) (k # xs) = lookup_node v xs"
  by (simp add: lookup_entries_new_append lookup_entries_new_map)

lemma lookup_update_outside:
  "diverge p (q @ [k]) \<Longrightarrow>
     lookup_node (update_node q (set_entry k v) n) p = lookup_node n p"
  and lookup_update_entries_outside:
  "x \<noteq> c \<or> diverge xs (cs @ [k]) \<Longrightarrow>
     lookup_entries (update_entries c cs (set_entry k v) es) x xs = lookup_entries es x xs"
proof (induction q "set_entry k v" n and c cs "set_entry k v" es arbitrary: p and x xs
    rule: update_node_update_entries.induct)
  case (1 n)
  then show ?case
    by (cases p) (simp_all add: lookup_set_entry_other)
next
  case (2 c cs b)
  then show ?case by simp
next
  case (3 c cs es)
  then show ?case
    by (cases p) simp_all
next
  case (4 c cs)
  then show ?case by simp
next
  case (5 c cs k' n es)
  then show ?case by auto
qed

lemma lookup_update_inside:
  "lookup_node n q = Node m \<Longrightarrow> lookup_node (update_node q f n) (q @ r) = lookup_node (f m) r"
  and lookup_update_entries_inside:
  "lookup_entries es c cs = Node m \<Longrightarrow>
     lookup_entries (update_entries c cs f es) c (cs @ r) = lookup_node (f m) r"
proof (induction q f n and c cs f es rule: update_node_update_entries.induct)
qed auto

lemma wf_lookup:
  "wf_node n \<Longrightarrow> lookup_node n p = Node m \<Longrightarrow> wf_node m"
  and wf_lookup_entries:
  "wf_entries es \<Longrightarrow> lookup_entries es c p = Node m \<Longrightarrow> wf_node m"
proof (induction n p and es c p rule: lookup_node_lookup_entries.induct)
qed (auto split: if_splits)

lemma wf_entries_clean: "wf_entries es \<Longrightarrow> (k, n) \<in> set es \<Longrightarrow> clean_name k \<and> wf_node n"
  by (induction es) auto

lemma abs_components_fs_root [simp]:
  "abs_components (fs\<lparr>fs_root := r\<rparr>) p = abs_components fs p"
  by (simp add: abs_components_def)

lemma diverge_append_left: "diverge p q \<Longrightarrow> diverge (p @ r) q"
  by (induction p q rule: diverge.induct) auto

lemma diverge_append_right: "diverge p q \<Longrightarrow> diverge p (q @ r)"
  by (induction p q rule: diverge.induct) auto

lemma lookup_entries_fresh:
  "lookup_entries es k [] = ENOENT \<longleftrightarrow> k \<notin> set (map fst es)"
  by (induction es) (auto split: if_splits)

lemma os_mkdir_ok:
  assumes "abs_components fs p = q @ [k]"
    and "lookup_node (fs_root fs) q = Node (Dir es)" and "k \<notin> set (map fst es)"
  shows "os_mkdir p fs = (Inr (), fs\<lparr>fs_root := update_node q (set_entry k (Dir [])) (fs_root fs)\<rparr>)"
  using assms by (simp add: os_mkdir_def Let_def)

lemma write_file_ok:
  assumes "abs_components fs p = q @ [k]"
    and "lookup_node (fs_root fs) q = Node (Dir es)"
    and "\<forall>d. (k, Dir d) \<notin> set es"
  shows "write_file p content fs
       = (Inr (), fs\<lparr>fs_root := update_node q (set_entry k (File content)) (fs_root fs)\<rparr>)"
proof -
  have "lookup_node (fs_root fs) (q @ [k]) = lookup_entries es k []"
    by (simp add: lookup_append assms(2))
  moreover have "lookup_entries es k [] \<noteq> ENOTDIR \<and> (\<forall>d. lookup_entries es k [] \<noteq> Node (Dir d))"
    using assms(3) by (induction es) (auto split: if_splits)
  ultimately show ?thesis
    using assms(1,2)
    by (cases "lookup_entries es k []") (auto simp: write_file_def Let_def split: fsnode.splits)
qed

lemma lookup_after_update:
  assumes "lookup_node n q = Node (Dir es)"
  shows "lookup_node (update_node q (set_entry k v) n) q = Node (set_entry k v (Dir es))"
  using lookup_update_inside [OF assms, of "set_entry k v" "[]"] by simp

lemma lookup_frame:
  assumes "diverge p (q @ [k])"
  shows "lookup_node (update_node q (set_entry k v) n) (p @ r) = lookup_node n (p @ r)"
  using assms by (intro lookup_update_outside diverge_append_left)


subsection \<open>Walking the upload directory\<close>

lemma zip_walk_append:
  "zip_walk fs fp zp (xs @ ys) acc =
     (case zip_walk fs fp zp xs acc of
        (Inl exc, a) \<Rightarrow> (Inl exc, a)
      | (Inr u, a) \<Rightarrow> zip_walk fs fp zp ys a)"
  by (induction xs arbitrary: acc) (auto split: prod.splits sum.splits)

lemma zip_one_file:
  assumes ctx: "zip_ctx fs fp zp U updir root"
    and top: "abs_components fs top_dir = U @ rel0" and rel0: "list_all clean_name rel0"
    and k: "clean_name k" and look: "lookup_node updir (rel0 @ [k]) = Node (File b)"
  shows "zipf_write fs (os_path_join top_dir k)
           (os_path_join (os_path_basename (take (length zp - 4) zp))
              (os_path_relpath fs (os_path_join top_dir k) fp))
         = Inr (archive_entry root rel0 ([k], b))"
proof -
  have full: "abs_components fs (os_path_join top_dir k) = U @ (rel0 @ [k])"
    using abs_components_join [OF k, of fs top_dir] top by simp
  have clean: "list_all clean_name (rel0 @ [k])"
    using rel0 k by simp
  have rel: "os_path_relpath fs (os_path_join top_dir k) fp = slash_join (rel0 @ [k])"
    using ctx by (intro relpath_below [OF _ full _ clean]) (simp_all add: zip_ctx_def)
  have arc: "os_path_join root (slash_join (rel0 @ [k])) = root @ ''/'' @ slash_join (rel0 @ [k])"
    using ctx by (intro arcname_join [OF _ clean]) (simp_all add: zip_ctx_def)
  have "fs_stat fs (os_path_join top_dir k) = Node (File b)"
    using ctx look by (simp add: fs_stat_def full lookup_append zip_ctx_def)
  then show ?thesis
    using ctx by (simp add: zipf_write_def rel arc archive_entry_def zip_ctx_def)
qed

lemma zip_files_in:
  assumes ctx: "zip_ctx fs fp zp U updir root"
    and top: "abs_components fs top_dir = U @ rel0" and rel0: "list_all clean_name rel0"
  shows "wf_entries es \<Longrightarrow> \<forall>(k, n) \<in> set es. lookup_node updir (rel0 @ [k]) = Node n \<Longrightarrow>
     zip_files fs fp zp top_dir
       (map fst (filter (\<lambda>e. case snd e of Dir _ \<Rightarrow> False | File _ \<Rightarrow> True) es)) acc
     = (Inr (), acc @ map (archive_entry root rel0) (files_in es))"
proof (induction es arbitrary: acc)
  case Nil
  then show ?case by simp
next
  case (Cons e es)
  obtain k n where e: "e = (k, n)" by (cases e)
  from Cons.prems e have k: "clean_name k" and wf: "wf_entries es"
    and look: "lookup_node updir (rel0 @ [k]) = Node n"
    and rest: "\<forall>(k, n) \<in> set es. lookup_node updir (rel0 @ [k]) = Node n"
    by simp_all
  show ?case
  proof (cases n)
    case (File b)
    from zip_one_file [OF ctx top rel0 k] look File
    show ?thesis
      by (simp add: e Cons.IH [OF wf rest] Let_def)
  next
    case (Dir x)
    then show ?thesis
      by (simp add: e Cons.IH [OF wf rest])
  qed
qed

lemma zip_walk_files_under:
  assumes ctx: "zip_ctx fs fp zp U updir root"
  shows "abs_components fs top_dir = U @ rel0 \<Longrightarrow> list_all clean_name rel0 \<Longrightarrow> wf_node n \<Longrightarrow>
      lookup_node updir rel0 = Node n \<Longrightarrow>
      zip_walk fs fp zp (walk top_dir n) acc
        = (Inr (), acc @ map (archive_entry root rel0) (files_under n))"
    and "abs_components fs top_dir = U @ rel0 \<Longrightarrow> list_all clean_name rel0 \<Longrightarrow> wf_entries es \<Longrightarrow>
      \<forall>(k, n) \<in> set es. lookup_node updir (rel0 @ [k]) = Node n \<Longrightarrow>
      zip_walk fs fp zp (walk_subdirs top_dir es) acc
        = (Inr (), acc @ map (archive_entry root rel0) (files_below es))"
proof (induction top_dir n and top_dir es arbitrary: rel0 acc and rel0 acc rule: walk_walk_subdirs.induct)
  case (1 top_dir b)
  then show ?case by simp
next
  case (2 top_dir es)
  from "2.prems" have wf: "wf_entries es" and dist: "distinct (map fst es)"
    by simp_all
  have look: "\<forall>(k, n) \<in> set es. lookup_node updir (rel0 @ [k]) = Node n"
    using "2.prems"(4) dist by (auto simp: lookup_append lookup_entries_member)
  show ?case
    using zip_files_in [OF ctx "2.prems"(1,2) wf look, of acc]
      "2.IH" [OF "2.prems"(1,2) wf look]
    by simp
next
  case (3 top_dir)
  then show ?case by simp
next
  case (4 top_dir k n es)
  from "4.prems" have k: "clean_name k" and wfn: "wf_node n" and wf: "wf_entries es"
    and look: "lookup_node updir (rel0 @ [k]) = Node n"
    and rest: "\<forall>(k, n) \<in> set es. lookup_node updir (rel0 @ [k]) = Node n"
    by simp_all
  have top': "abs_components fs (os_path_join top_dir k) = U @ (rel0 @ [k])"
    using abs_components_join [OF k, of fs top_dir] "4.prems"(1) by simp
  have clean': "list_all clean_name (rel0 @ [k])"
    using "4.prems"(2) k by simp
  have shift: "map (archive_entry root rel0) (map (\<lambda>(p, b). (k # p, b)) (files_under n))
      = map (archive_entry root (rel0 @ [k])) (files_under n)"
    by (simp add: archive_entry_def case_prod_beta)
  show ?case
    using "4.IH"(1) [OF top' clean' wfn look] "4.IH"(2) [OF "4.prems"(1,2) wf rest]
    by (simp add: zip_walk_append archive_entry_def case_prod_beta)
qed

lemma files_under_complete:
  "wf_node n \<Longrightarrow> lookup_node n p = Node (File b) \<Longrightarrow> p \<noteq> [] \<Longrightarrow> (p, b) \<in> set (files_under n)"
  and files_entries_complete:
  "wf_entries es \<Longrightarrow> lookup_entries es c cs = Node (File b) \<Longrightarrow>
     (c # cs, b) \<in> set (files_in es) \<union> set (files_below es)"
proof (induction n p and es c cs rule: lookup_node_lookup_entries.induct)
  case (5 k n es c cs)
  show ?case
  proof (cases "k = c")
    case True
    show ?thesis
    proof (cases cs)
      case Nil
      with "5.prems" True show ?thesis by simp
    next
      case (Cons x xs)
      with "5.prems" "5.IH"(1) True show ?thesis by force
    qed
  next
    case False
    with "5.prems" "5.IH"(2) show ?thesis by auto
  qed
qed auto

lemma files_under_sound:
  "wf_node n \<Longrightarrow> (p, b) \<in> set (files_under n) \<Longrightarrow> lookup_node n p = Node (File b) \<and> p \<noteq> []"
  and files_in_sound:
  "wf_entries es \<Longrightarrow> (p, b) \<in> set (files_in es) \<Longrightarrow> \<exists>k. p = [k] \<and> (k, File b) \<in> set es"
  and files_below_sound:
  "wf_entries es \<Longrightarrow> (p, b) \<in> set (files_below es) \<Longrightarrow>
     \<exists>k n q. p = k # q \<and> (k, n) \<in> set es \<and> lookup_node n q = Node (File b) \<and> q \<noteq> []"
proof (induction n and es and es arbitrary: p and p and p rule: files_under_files_in_files_below.induct)
  case (2 es)
  from "2.prems" have dist: "distinct (map fst es)" and wf: "wf_entries es"
    by simp_all
  from "2.prems"(2) consider (here) "(p, b) \<in> set (files_in es)" | (below) "(p, b) \<in> set (files_below es)"
    by auto
  then show ?case
  proof cases
    case here
    from "2.IH"(1) [OF wf this] obtain k where "p = [k]" "(k, File b) \<in> set es"
      by blast
    then show ?thesis
      using lookup_entries_member [OF dist, of k "File b" "[]"] by simp
  next
    case below
    from "2.IH"(2) [OF wf this] obtain k n q where
      "p = k # q" "(k, n) \<in> set es" "lookup_node n q = Node (File b)" "q \<noteq> []"
      by blast
    then show ?thesis
      using lookup_entries_member [OF dist, of k n q] by simp
  qed
next
  case (4 k n es)
  then show ?case by (auto split: fsnode.splits)
next
  case (6 k n es)
  then show ?case by fastforce
qed simp_all

lemma files_under_iff:
  "wf_node n \<Longrightarrow> (p, b) \<in> set (files_under n) \<longleftrightarrow> p \<noteq> [] \<and> lookup_node n p = Node (File b)"
  using files_under_complete files_under_sound by blast

lemma set_map_pairs:
  assumes "\<And>p b. f (p, b) = g p b"
  shows "set (map f xs) = {g p b | p b. (p, b) \<in> set xs}"
proof (intro set_eqI iffI)
  fix x
  assume "x \<in> set (map f xs)"
  then obtain e where "e \<in> set xs" and "x = f e"
    by auto
  then have "(fst e, snd e) \<in> set xs" and "x = g (fst e) (snd e)"
    using assms [of "fst e" "snd e"] by simp_all
  then show "x \<in> {g p b | p b. (p, b) \<in> set xs}"
    by blast
next
  fix x
  assume "x \<in> {g p b | p b. (p, b) \<in> set xs}"
  then obtain p b where "x = g p b" and "(p, b) \<in> set xs"
    by blast
  then have "x = f (p, b)" and "(p, b) \<in> set xs"
    by (simp_all add: assms)
  then show "x \<in> set (map f xs)"
    by simp
qed

lemma archive_entry_top: "archive_entry root [] (p, b) = (root @ ''/'' @ slash_join p, b)"
  by (simp add: archive_entry_def)

lemma archive_entries_set:
  assumes "wf_node n"
  shows "set (map (archive_entry root []) (files_under n))
       = {(root @ ''/'' @ slash_join p, b) | p b. p \<noteq> [] \<and> lookup_node n p = Node (File b)}"
  unfolding set_map_pairs [of "archive_entry root []", OF archive_entry_top] files_under_iff [OF assms]
  by (rule refl)

subsection \<open>The archive of a dataset\<close>

lemma upload_path_abs:
  "abs_components fs (upload_path dataset)
     = fs_cwd fs @ [''uploads'', ''user_'' @ str_nat (ds_user_id dataset),
                    ''dataset_'' @ str_nat (ds_id dataset)]"
  unfolding upload_path_def by (rule file_path_abs)

lemma root_folder_last: "root_folder dataset \<noteq> [] \<and> last (root_folder dataset) \<noteq> CHR ''/''"
  using clean_nameD(1,6) [OF clean_dataset, of "ds_id dataset"] by (simp add: root_folder_def)

lemma zip_dataset_run:
  assumes wf: "wf_node (fs_root fs)"
    and cand: "candidate \<noteq> []"
    and tcs: "abs_components fs candidate = q @ [k]"
    and parent: "lookup_node (fs_root fs) q = Node (Dir es)"
    and fresh: "k \<notin> set (map fst es)"
    and apart: "diverge (abs_components fs (upload_path dataset)) (q @ [k])"
  shows "\<exists>fs'. zip_dataset zip_bytes candidate dataset fs = (Inr candidate, fs')
     \<and> fs_cwd fs' = fs_cwd fs
     \<and> lookup_node (fs_root fs') (q @ [k])
        = Node (Dir [(root_folder dataset @ ''.zip'', File (zip_bytes (expected_archive fs dataset)))])
     \<and> (\<forall>r. lookup_node (fs_root fs') (abs_components fs (upload_path dataset) @ r)
            = lookup_node (fs_root fs) (abs_components fs (upload_path dataset) @ r))"
proof -
  let ?fp = "upload_path dataset"
  let ?U = "abs_components fs ?fp"
  let ?T = "q @ [k]"
  let ?zn = "''dataset_'' @ str_nat (ds_id dataset) @ ''.zip''"
  let ?zp = "os_path_join candidate ?zn"
  let ?r1 = "update_node q (set_entry k (Dir [])) (fs_root fs)"
  let ?fs1 = "fs\<lparr>fs_root := ?r1\<rparr>"
  let ?r2 = "update_node ?T (set_entry ?zn (File [])) ?r1"
  let ?fs2 = "fs\<lparr>fs_root := ?r2\<rparr>"
  let ?content = "zip_bytes (expected_archive fs dataset)"
  let ?r3 = "update_node ?T (set_entry ?zn (File ?content)) ?r2"
  let ?fs3 = "fs\<lparr>fs_root := ?r3\<rparr>"
  have mk: "tempfile_mkdtemp candidate fs = (Inr candidate, ?fs1)"
    by (simp add: tempfile_mkdtemp_def os_mkdir_ok [OF tcs parent fresh])
  have t1: "lookup_node ?r1 ?T = Node (Dir [])"
    using lookup_update_inside [OF parent, of "set_entry k (Dir [])" "[k]"] fresh
    by (simp add: lookup_entries_new_append)
  have zabs: "abs_components fs ?zp = ?T @ [?zn]"
    using zip_path_abs [of fs candidate "ds_id dataset"] tcs by simp
  have w1: "write_file ?zp [] ?fs1 = (Inr (), ?fs2)"
    using write_file_ok [where fs = ?fs1 and p = ?zp and q = ?T and k = ?zn and es = "[]"
        and content = "[]"] zabs t1
    by simp
  have t2: "lookup_node ?r2 ?T = Node (Dir [(?zn, File [])])"
    using lookup_after_update [OF t1, where k = ?zn and v = "File []"] by simp
  have w2: "write_file ?zp ?content ?fs2 = (Inr (), ?fs3)"
    using write_file_ok [where fs = ?fs2 and p = ?zp and q = ?T and k = ?zn
        and es = "[(?zn, File [])]" and content = ?content] zabs t2
    by simp
  have t3: "lookup_node ?r3 ?T = Node (Dir [(?zn, File ?content)])"
    using lookup_after_update [OF t2, where k = ?zn and v = "File ?content"] by simp
  have apart': "diverge ?U (?T @ [?zn])"
    using apart by (rule diverge_append_right)
  have f1: "lookup_node ?r1 (?U @ r) = lookup_node (fs_root fs) (?U @ r)" for r
    using apart by (rule lookup_frame)
  have f2: "lookup_node ?r2 (?U @ r) = lookup_node (fs_root fs) (?U @ r)" for r
    using lookup_frame [OF apart', where v = "File []" and n = ?r1 and r = r] f1 by simp
  have f3: "lookup_node ?r3 (?U @ r) = lookup_node (fs_root fs) (?U @ r)" for r
    using lookup_frame [OF apart', where v = "File ?content" and n = ?r2 and r = r] f2 by simp
  have stat2: "fs_stat ?fs2 ?fp = fs_stat fs ?fp"
    using f2 [of "[]"] by (simp add: fs_stat_def)
  have walk: "zip_walk ?fs2 ?fp ?zp (os_walk ?fs2 ?fp) [] = (Inr (), expected_archive fs dataset)"
  proof (cases "fs_stat fs ?fp")
    case (Node updir)
    then have look: "lookup_node (fs_root fs) ?U = Node updir"
      by (simp add: fs_stat_def)
    have wfu: "wf_node updir"
      using wf look by (rule wf_lookup)
    have ctx: "zip_ctx ?fs2 ?fp ?zp ?U updir (root_folder dataset)"
      using f2 [of "[]"] look root_folder_last [of dataset] zip_root_folder [OF cand, of "ds_id dataset"]
      by (simp add: zip_ctx_def root_folder_def)
    from zip_walk_files_under(1) [OF ctx, where top_dir = ?fp and ?rel0.0 = "[]" and n = updir and acc = "[]"] wfu
    have "zip_walk ?fs2 ?fp ?zp (walk ?fp updir) []
        = (Inr (), map (archive_entry (root_folder dataset) []) (files_under updir))"
      by simp
    then show ?thesis
      unfolding os_walk_def stat2 expected_archive_def Node by simp
  next
    case ENOENT
    show ?thesis
      unfolding os_walk_def stat2 expected_archive_def ENOENT by simp
  next
    case ENOTDIR
    show ?thesis
      unfolding os_walk_def stat2 expected_archive_def ENOTDIR by simp
  qed
  have "zip_dataset zip_bytes candidate dataset fs = (Inr candidate, ?fs3)"
    unfolding zip_dataset_def Let_def upload_path_def [symmetric] mk prod.case sum.case w1 walk w2
    by simp
  moreover have "fs_cwd ?fs3 = fs_cwd fs"
    by simp
  moreover have "lookup_node (fs_root ?fs3) ?T = Node (Dir [(root_folder dataset @ ''.zip'', File ?content)])"
    using t3 by (simp add: root_folder_def)
  moreover have "\<forall>r. lookup_node (fs_root ?fs3) (?U @ r) = lookup_node (fs_root fs) (?U @ r)"
    using f3 by simp
  ultimately show ?thesis
    by blast
qed

lemma abs_components_cwd: "fs_cwd fs' = fs_cwd fs \<Longrightarrow> abs_components fs' p = abs_components fs p"
  by (simp add: abs_components_def)

lemma str_nat_digit: "n < 10 \<Longrightarrow> str_nat n = [digit_char n]"
  by (subst str_nat.simps) simp


text \<open>
  Claim C6. \<^verbatim>\<open>zip_dataset\<close> returns the temporary directory it created, which did not
  exist before the call and is not deleted: after the call it holds one file,
  \<^verbatim>\<open>dataset_{id}.zip\<close>, the archive of the expected entries. When the upload directory
  \<^verbatim>\<open>uploads/user_{user_id}/dataset_{id}/\<close> exists, the entries are its files in walk order,
  and as a set they are exactly the files reachable below it, each named by the root
  folder \<^verbatim>\<open>dataset_{id}\<close>, a separator, and its path relative to the upload directory.
  When the upload directory is missing or empty the archive has no entry and the call
  still returns. The upload directory itself is left as it was. This holds on a
  well-formed tree, for a temporary path as \<^verbatim>\<open>mkdtemp\<close> draws it, when neither of the
  two directories lies inside the other.
\<close>

theorem zip_dataset_archive:
  assumes "wf_fs fs" and "fresh_temp_dir fs candidate"
    and "diverge (abs_components fs (upload_path dataset)) (abs_components fs candidate)"
  shows "\<exists>fs'. zip_dataset zip_bytes candidate dataset fs = (Inr candidate, fs')
     \<and> fs_stat fs candidate = ENOENT
     \<and> fs_stat fs' candidate
         = Node (Dir [(root_folder dataset @ ''.zip'', File (zip_bytes (expected_archive fs dataset)))])
     \<and> fs_stat fs' (upload_path dataset) = fs_stat fs (upload_path dataset)
     \<and> (\<forall>updir. fs_stat fs (upload_path dataset) = Node updir \<longrightarrow>
           expected_archive fs dataset = map (archive_entry (root_folder dataset) []) (files_under updir)
           \<and> set (expected_archive fs dataset)
               = {(root_folder dataset @ ''/'' @ slash_join p, b) | p b.
                    p \<noteq> [] \<and> lookup_node updir p = Node (File b)})
     \<and> ((\<forall>updir. fs_stat fs (upload_path dataset) \<noteq> Node updir)
           \<or> fs_stat fs (upload_path dataset) = Node (Dir []) \<longrightarrow>
         expected_archive fs dataset = [])"
proof -
  let ?U = "abs_components fs (upload_path dataset)"
  let ?T = "abs_components fs candidate"
  from assms(1) have wf: "wf_node (fs_root fs)"
    by (simp add: wf_fs_def)
  from assms(2) have cand: "candidate \<noteq> []" and ne: "?T \<noteq> []"
    by (auto simp: fresh_temp_dir_def is_abs_def Let_def)
  from assms(2) obtain es where
    parent: "lookup_node (fs_root fs) (butlast ?T) = Node (Dir es)"
    and fresh: "last ?T \<notin> set (map fst es)"
    by (auto simp: fresh_temp_dir_def Let_def split: stat.splits fsnode.splits)
  from ne have tcs: "?T = butlast ?T @ [last ?T]"
    by simp
  from assms(3) have apart: "diverge ?U (butlast ?T @ [last ?T])"
    using tcs by simp
  from zip_dataset_run [OF wf cand tcs parent fresh apart, of zip_bytes]
  obtain fs' where
    run: "zip_dataset zip_bytes candidate dataset fs = (Inr candidate, fs')"
    and cwd: "fs_cwd fs' = fs_cwd fs"
    and temp: "lookup_node (fs_root fs') (butlast ?T @ [last ?T])
        = Node (Dir [(root_folder dataset @ ''.zip'', File (zip_bytes (expected_archive fs dataset)))])"
    and frame: "\<forall>r. lookup_node (fs_root fs') (?U @ r) = lookup_node (fs_root fs) (?U @ r)"
    by blast
  have "lookup_node (fs_root fs) (butlast ?T @ [last ?T]) = ENOENT"
    using fresh by (simp add: lookup_append parent lookup_entries_fresh)
  then have before: "fs_stat fs candidate = ENOENT"
    using tcs by (simp add: fs_stat_def)
  have after: "fs_stat fs' candidate
      = Node (Dir [(root_folder dataset @ ''.zip'', File (zip_bytes (expected_archive fs dataset)))])"
    using temp tcs by (simp add: fs_stat_def abs_components_cwd [OF cwd])
  have uploads: "fs_stat fs' (upload_path dataset) = fs_stat fs (upload_path dataset)"
    using frame [rule_format, of "[]"] by (simp add: fs_stat_def abs_components_cwd [OF cwd])
  have entries: "expected_archive fs dataset = map (archive_entry (root_folder dataset) []) (files_under updir)
      \<and> set (expected_archive fs dataset)
          = {(root_folder dataset @ ''/'' @ slash_join p, b) | p b.
               p \<noteq> [] \<and> lookup_node updir p = Node (File b)}"
    if "fs_stat fs (upload_path dataset) = Node updir" for updir
  proof -
    from that have "wf_node updir"
      using wf by (auto simp: fs_stat_def dest: wf_lookup)
    have "expected_archive fs dataset
        = map (archive_entry (root_folder dataset) []) (files_under updir)"
      by (simp add: expected_archive_def that)
    then show ?thesis
      using archive_entries_set [OF \<open>wf_node updir\<close>, of "root_folder dataset"]
      by (simp only: simp_thms)
  qed
  have empty: "expected_archive fs dataset = []"
    if "(\<forall>updir. fs_stat fs (upload_path dataset) \<noteq> Node updir)
        \<or> fs_stat fs (upload_path dataset) = Node (Dir [])"
    using that by (auto simp: expected_archive_def split: stat.splits)
  show ?thesis
  proof (intro exI [of _ fs'] conjI allI impI)
    show "zip_dataset zip_bytes candidate dataset fs = (Inr candidate, fs')"
      by (rule run)
    show "fs_stat fs candidate = ENOENT"
      by (rule before)
    show "fs_stat fs' candidate
        = Node (Dir [(root_folder dataset @ ''.zip'', File (zip_bytes (expected_archive fs dataset)))])"
      by (rule after)
    show "fs_stat fs' (upload_path dataset) = fs_stat fs (upload_path dataset)"
      by (rule uploads)
  next
    fix updir
    assume "fs_stat fs (upload_path dataset) = Node updir"
    from entries [OF this]
    show "expected_archive fs dataset = map (archive_entry (root_folder dataset) []) (files_under updir)"
      and "set (expected_archive fs dataset)
          = {(root_folder dataset @ ''/'' @ slash_join p, b) | p b.
               p \<noteq> [] \<and> lookup_node updir p = Node (File b)}"
      by (rule conjunct1, rule conjunct2)
  next
    assume "(\<forall>updir. fs_stat fs (upload_path dataset) \<noteq> Node updir)
        \<or> fs_stat fs (upload_path dataset) = Node (Dir [])"
    then show "expected_archive fs dataset = []"
      by (rule empty)
  qed
qed

theorem zip_dataset_archive_witness:
  "wf_fs example_uploads_fs
   \<and> fresh_temp_dir example_uploads_fs ''/tmp/tmpabcd1234''
   \<and> fst (zip_dataset example_zip_bytes ''/tmp/tmpabcd1234'' example_dataset example_uploads_fs)
       = Inr ''/tmp/tmpabcd1234''
   \<and> fs_stat (snd (zip_dataset example_zip_bytes ''/tmp/tmpabcd1234'' example_dataset example_uploads_fs))
         ''/tmp/tmpabcd1234''
       = Node (Dir [(''dataset_7.zip'',
           File ''dataset_7/a.uvl:aaa;dataset_7/z.uvl:zz;dataset_7/sub/b.uvl:bb;dataset_7/sub/deep/c.txt:c;'')])
   \<and> wf_fs missing_uploads_fs
   \<and> fresh_temp_dir missing_uploads_fs ''/tmp/tmpabcd1234''
   \<and> fs_stat missing_uploads_fs (upload_path example_dataset) = ENOENT
   \<and> fst (zip_dataset example_zip_bytes ''/tmp/tmpabcd1234'' example_dataset missing_uploads_fs)
       = Inr ''/tmp/tmpabcd1234''
   \<and> fs_stat (snd (zip_dataset example_zip_bytes ''/tmp/tmpabcd1234'' example_dataset missing_uploads_fs))
         ''/tmp/tmpabcd1234''
       = Node (Dir [(''dataset_7.zip'', File [])])"
proof -
  have s7: "str_nat 7 = ''7''" and s3: "str_nat 3 = ''3''"
    by (simp_all add: str_nat_digit digit_char_def)
  have root: "root_folder example_dataset @ ''.zip'' = ''dataset_7.zip''"
    by (simp add: root_folder_def example_dataset_def s7)
  have wf: "wf_fs example_uploads_fs"
    by (simp add: wf_fs_def example_uploads_fs_def clean_name_def)
  have tmp: "abs_components example_uploads_fs ''/tmp/tmpabcd1234'' = [''tmp'', ''tmpabcd1234'']"
    by (simp add: abs_components_def path_components_def is_abs_def)
  have fresh: "fresh_temp_dir example_uploads_fs ''/tmp/tmpabcd1234''"
    unfolding fresh_temp_dir_def tmp Let_def
    by (simp add: is_abs_def example_uploads_fs_def)
  have up: "abs_components example_uploads_fs (upload_path example_dataset)
      = [''app'', ''uploads'', ''user_3'', ''dataset_7'']"
    by (simp add: upload_path_abs example_dataset_def example_uploads_fs_def s7 s3)
  have apart: "diverge (abs_components example_uploads_fs (upload_path example_dataset))
      (abs_components example_uploads_fs ''/tmp/tmpabcd1234'')"
    unfolding up tmp by simp
  have arch: "expected_archive example_uploads_fs example_dataset
      = [(''dataset_7/a.uvl'', ''aaa''), (''dataset_7/z.uvl'', ''zz''),
         (''dataset_7/sub/b.uvl'', ''bb''), (''dataset_7/sub/deep/c.txt'', ''c'')]"
    unfolding expected_archive_def fs_stat_def up
    by (simp add: example_uploads_fs_def root_folder_def example_dataset_def s7 archive_entry_def
        slash_join_def)
  have bytes: "example_zip_bytes (expected_archive example_uploads_fs example_dataset)
      = ''dataset_7/a.uvl:aaa;dataset_7/z.uvl:zz;dataset_7/sub/b.uvl:bb;dataset_7/sub/deep/c.txt:c;''"
    unfolding arch by (simp add: example_zip_bytes_def)
  from zip_dataset_archive [OF wf fresh apart, of example_zip_bytes]
  obtain fs' where
    run: "zip_dataset example_zip_bytes ''/tmp/tmpabcd1234'' example_dataset example_uploads_fs
        = (Inr ''/tmp/tmpabcd1234'', fs')"
    and st: "fs_stat fs' ''/tmp/tmpabcd1234''
        = Node (Dir [(root_folder example_dataset @ ''.zip'',
             File (example_zip_bytes (expected_archive example_uploads_fs example_dataset)))])"
    by (elim exE conjE) (rule that)
  have wf2: "wf_fs missing_uploads_fs"
    by (simp add: wf_fs_def missing_uploads_fs_def clean_name_def)
  have tmp2: "abs_components missing_uploads_fs ''/tmp/tmpabcd1234'' = [''tmp'', ''tmpabcd1234'']"
    by (simp add: abs_components_def path_components_def is_abs_def)
  have fresh2: "fresh_temp_dir missing_uploads_fs ''/tmp/tmpabcd1234''"
    unfolding fresh_temp_dir_def tmp2 Let_def
    by (simp add: is_abs_def missing_uploads_fs_def)
  have up2: "abs_components missing_uploads_fs (upload_path example_dataset)
      = [''app'', ''uploads'', ''user_3'', ''dataset_7'']"
    by (simp add: upload_path_abs example_dataset_def missing_uploads_fs_def s7 s3)
  have apart2: "diverge (abs_components missing_uploads_fs (upload_path example_dataset))
      (abs_components missing_uploads_fs ''/tmp/tmpabcd1234'')"
    unfolding up2 tmp2 by simp
  have missing: "fs_stat missing_uploads_fs (upload_path example_dataset) = ENOENT"
    unfolding fs_stat_def up2 by (simp add: missing_uploads_fs_def)
  from zip_dataset_archive [OF wf2 fresh2 apart2, of example_zip_bytes]
  obtain fs'' where
    run2: "zip_dataset example_zip_bytes ''/tmp/tmpabcd1234'' example_dataset missing_uploads_fs
        = (Inr ''/tmp/tmpabcd1234'', fs'')"
    and st2: "fs_stat fs'' ''/tmp/tmpabcd1234''
        = Node (Dir [(root_folder example_dataset @ ''.zip'',
             File (example_zip_bytes (expected_archive missing_uploads_fs example_dataset)))])"
    and empty: "(\<forall>updir. fs_stat missing_uploads_fs (upload_path example_dataset) \<noteq> Node updir)
           \<or> fs_stat missing_uploads_fs (upload_path example_dataset) = Node (Dir []) \<longrightarrow>
         expected_archive missing_uploads_fs example_dataset = []"
    by (elim exE conjE) (rule that)
  from empty missing have arch2: "expected_archive missing_uploads_fs example_dataset = []"
    by simp
  have bytes2: "example_zip_bytes [] = []"
    by (simp add: example_zip_bytes_def)
  show ?thesis
    using wf fresh st wf2 fresh2 missing st2
    by (simp add: run run2 root bytes arch2 bytes2)
qed

end
